theory Spec2Isabelle
  imports Complex_Main "HOL-Library.Log_Nat" "HOL-Library.Word" "HOL-Library.Monad_Syntax"
begin

section \<open>JavaScript numbers\<close>

text \<open>
  Every number of the dashboard code is an IEEE 754 double. A double is modelled as
  \<open>NaN\<close>, one of the two infinities, or \<open>Fin r\<close> with \<open>r\<close> the rational value of a finite
  double. Negative zero is identified with zero. The two differ only as divisors, where
  the sign of an infinite quotient is taken as if the zero were positive; a number that is
  a negative zero never divides in the code modelled here (it is falsy, and the guard on
  the divisor replaces it), a text such as \<^verbatim>\<open>"-0"\<close> can.
\<close>

datatype jsnum = NaN | PInf | NInf | Fin rat

text \<open>
  The binary exponent of a positive rational \<open>a\<close>, the integer \<open>e\<close> with
  \<open>2 powi e \<le> a < 2 powi (e + 1)\<close>, computed from the bit lengths of its numerator and
  denominator.
\<close>

definition ilog2 :: "rat \<Rightarrow> int" where
  "ilog2 a = (let d = bitlen (fst (quotient_of a)) - bitlen (snd (quotient_of a))
              in if 2 powi d \<le> a then d else d - 1)"

text \<open>Rounding to the nearest integer, a tie going to the even one.\<close>

definition round_half_even :: "rat \<Rightarrow> int" where
  "round_half_even x =
     (let f = \<lfloor>x\<rfloor>; r = x - of_int f
      in if r < 1 / 2 then f else if 1 / 2 < r then f + 1 else if even f then f else f + 1)"

text \<open>
  The double nearest to a rational, as every arithmetic operation of the language
  delivers it: 53 significant bits, ties to even, a least exponent of \<open>- 1074\<close> for the
  subnormal numbers, and an infinity once the rounded magnitude reaches \<open>2 powi 1024\<close>.
\<close>

definition fl :: "rat \<Rightarrow> jsnum" where
  "fl x =
     (if x = 0 then Fin 0
      else let a = \<bar>x\<bar>;
               q = max (ilog2 a - 52) (- 1074);
               r = of_int (round_half_even (a / 2 powi q)) * 2 powi q
           in if 2 powi 1024 \<le> r then (if 0 < x then PInf else NInf)
              else Fin (sgn x * r))"

text \<open>The operators \<^verbatim>\<open>*\<close> and \<^verbatim>\<open>/\<close>: the exact result, rounded once.\<close>

fun js_mul :: "jsnum \<Rightarrow> jsnum \<Rightarrow> jsnum" where
  "js_mul NaN _ = NaN"
| "js_mul _ NaN = NaN"
| "js_mul (Fin x) (Fin y) = fl (x * y)"
| "js_mul (Fin x) PInf = (if x = 0 then NaN else if 0 < x then PInf else NInf)"
| "js_mul (Fin x) NInf = (if x = 0 then NaN else if 0 < x then NInf else PInf)"
| "js_mul PInf (Fin y) = (if y = 0 then NaN else if 0 < y then PInf else NInf)"
| "js_mul NInf (Fin y) = (if y = 0 then NaN else if 0 < y then NInf else PInf)"
| "js_mul PInf PInf = PInf"
| "js_mul PInf NInf = NInf"
| "js_mul NInf PInf = NInf"
| "js_mul NInf NInf = PInf"

fun js_div :: "jsnum \<Rightarrow> jsnum \<Rightarrow> jsnum" where
  "js_div NaN _ = NaN"
| "js_div _ NaN = NaN"
| "js_div (Fin x) (Fin y) =
     (if y = 0 then (if x = 0 then NaN else if 0 < x then PInf else NInf) else fl (x / y))"
| "js_div (Fin x) PInf = Fin 0"
| "js_div (Fin x) NInf = Fin 0"
| "js_div PInf (Fin y) = (if 0 \<le> y then PInf else NInf)"
| "js_div NInf (Fin y) = (if 0 \<le> y then NInf else PInf)"
| "js_div PInf PInf = NaN"
| "js_div PInf NInf = NaN"
| "js_div NInf PInf = NaN"
| "js_div NInf NInf = NaN"

text \<open>\<^verbatim>\<open>Math.round\<close>: the nearest integer, a tie going up; not a number and the infinities
  are returned as they are.\<close>

fun Math_round :: "jsnum \<Rightarrow> jsnum" where
  "Math_round (Fin x) = Fin (of_int \<lfloor>x + 1 / 2\<rfloor>)"
| "Math_round n = n"

text \<open>A number is truthy when it is neither zero nor not a number.\<close>

fun truthy :: "jsnum \<Rightarrow> bool" where
  "truthy NaN = False"
| "truthy (Fin x) = (x \<noteq> 0)"
| "truthy _ = True"

fun is_finite :: "jsnum \<Rightarrow> bool" where
  "is_finite (Fin x) = True"
| "is_finite _ = False"

text \<open>The value of a finite number, for statements about sums.\<close>

fun num_of :: "jsnum \<Rightarrow> rat" where
  "num_of (Fin x) = x"
| "num_of _ = 0"

section \<open>JavaScript strings\<close>

text \<open>
  A JavaScript string is a sequence of UTF-16 code units; \<open>length\<close> counts code units,
  as \<^verbatim>\<open>.length\<close> does. \<open>lit\<close> turns an ASCII literal of the source into such a string.
\<close>

type_synonym jsstring = "16 word list"

definition lit :: "string \<Rightarrow> jsstring" where
  "lit s = map of_char s"

text \<open>\<^verbatim>\<open>String.prototype.trim\<close>: strips white space and line terminators at both ends.\<close>

definition is_white_space :: "16 word \<Rightarrow> bool" where
  "is_white_space c \<longleftrightarrow>
     c \<in> {0x09, 0x0A, 0x0B, 0x0C, 0x0D, 0x20, 0xA0, 0x1680, 0x2028, 0x2029, 0x202F, 0x205F,
          0x3000, 0xFEFF}
     \<or> (0x2000 \<le> c \<and> c \<le> 0x200A)"

definition trim :: "jsstring \<Rightarrow> jsstring" where
  "trim s = rev (dropWhile is_white_space (rev (dropWhile is_white_space s)))"

text \<open>
  \<^verbatim>\<open>encodeURIComponent\<close>: letters, digits and \<^verbatim>\<open>- _ . ! ~ * ' ( )\<close> are kept, every other
  code point is written as the percent-escaped bytes of its UTF-8 encoding, and a
  surrogate without its partner raises URIError (\<open>None\<close>).
\<close>

definition is_unreserved :: "16 word \<Rightarrow> bool" where
  "is_unreserved c \<longleftrightarrow>
     (0x41 \<le> c \<and> c \<le> 0x5A) \<or> (0x61 \<le> c \<and> c \<le> 0x7A) \<or> (0x30 \<le> c \<and> c \<le> 0x39)
     \<or> c \<in> {0x2D, 0x5F, 0x2E, 0x21, 0x7E, 0x2A, 0x27, 0x28, 0x29}"

definition is_lead_surrogate :: "16 word \<Rightarrow> bool" where
  "is_lead_surrogate c \<longleftrightarrow> 0xD800 \<le> c \<and> c \<le> 0xDBFF"

definition is_trail_surrogate :: "16 word \<Rightarrow> bool" where
  "is_trail_surrogate c \<longleftrightarrow> 0xDC00 \<le> c \<and> c \<le> 0xDFFF"

definition utf8 :: "nat \<Rightarrow> nat list" where
  "utf8 cp =
     (if cp < 0x80 then [cp]
      else if cp < 0x800 then [0xC0 + cp div 64, 0x80 + cp mod 64]
      else if cp < 0x10000 then [0xE0 + cp div 4096, 0x80 + cp div 64 mod 64, 0x80 + cp mod 64]
      else [0xF0 + cp div 262144, 0x80 + cp div 4096 mod 64, 0x80 + cp div 64 mod 64,
            0x80 + cp mod 64])"

definition hex_digit :: "nat \<Rightarrow> 16 word" where
  "hex_digit d = (if d < 10 then of_nat (0x30 + d) else of_nat (0x41 + (d - 10)))"

definition percent_escape :: "nat list \<Rightarrow> jsstring" where
  "percent_escape bs = concat (map (\<lambda>b. [0x25, hex_digit (b div 16), hex_digit (b mod 16)]) bs)"

definition surrogate_pair :: "16 word \<Rightarrow> 16 word \<Rightarrow> nat" where
  "surrogate_pair hi lo = 0x10000 + (unat hi - 0xD800) * 0x400 + (unat lo - 0xDC00)"

fun encodeURIComponent :: "jsstring \<Rightarrow> jsstring option" where
  "encodeURIComponent [] = Some []"
| "encodeURIComponent [c] =
     (if is_unreserved c then Some [c]
      else if is_lead_surrogate c \<or> is_trail_surrogate c then None
      else Some (percent_escape (utf8 (unat c))))"
| "encodeURIComponent (c # d # ds) =
     (if is_unreserved c then map_option ((#) c) (encodeURIComponent (d # ds))
      else if is_lead_surrogate c then
        (if is_trail_surrogate d
         then map_option ((@) (percent_escape (utf8 (surrogate_pair c d)))) (encodeURIComponent ds)
         else None)
      else if is_trail_surrogate c then None
      else map_option ((@) (percent_escape (utf8 (unat c)))) (encodeURIComponent (d # ds)))"

section \<open>JavaScript values\<close>

text \<open>
  What \<^verbatim>\<open>response.json()\<close> delivers is not typed: a property of a response may hold any
  JSON value, and a property that is missing reads as \<^verbatim>\<open>undefined\<close>. An object is given
  by the list of its own properties, as parsing has left them, not by its JSON text: a
  name has one value, and in a list that binds a name twice the first binding is that
  value.
\<close>

datatype jsval =
  Undefined | Null | Bool bool | Num jsnum | Str jsstring | Arr "jsval list"
  | Obj "(jsstring \<times> jsval) list"

text \<open>\<^verbatim>\<open>ToBoolean\<close>, and the operator \<^verbatim>\<open>||\<close>, which keeps a left operand that is truthy.\<close>

fun ToBoolean :: "jsval \<Rightarrow> bool" where
  "ToBoolean Undefined = False"
| "ToBoolean Null = False"
| "ToBoolean (Bool b) = b"
| "ToBoolean (Num n) = truthy n"
| "ToBoolean (Str s) = (s \<noteq> [])"
| "ToBoolean (Arr vs) = True"
| "ToBoolean (Obj ps) = True"

definition or_else :: "jsval \<Rightarrow> jsval \<Rightarrow> jsval" where
  "or_else a b = (if ToBoolean a then a else b)"

text \<open>
  Reading the property \<open>k\<close> of a value: a TypeError (\<open>None\<close>) on \<^verbatim>\<open>undefined\<close> and \<^verbatim>\<open>null\<close>,
  the own property of an object, and \<^verbatim>\<open>undefined\<close> on everything else. That is right for
  the names the client reads from a response, none of which is a property that strings,
  arrays, numbers or \<^verbatim>\<open>Object.prototype\<close> provide; \<^verbatim>\<open>length\<close>, an index and \<^verbatim>\<open>map\<close> are
  modelled where they are used. \<open>get_opt\<close> is the optional chain \<^verbatim>\<open>v?.k\<close>.
\<close>

fun get :: "jsval \<Rightarrow> string \<Rightarrow> jsval option" where
  "get Undefined k = None"
| "get Null k = None"
| "get (Obj ps) k = Some (case map_of ps (lit k) of None \<Rightarrow> Undefined | Some v \<Rightarrow> v)"
| "get v k = Some Undefined"

definition get_opt :: "jsval \<Rightarrow> string \<Rightarrow> jsval" where
  "get_opt v k = (case get v k of None \<Rightarrow> Undefined | Some x \<Rightarrow> x)"

text \<open>
  \<^verbatim>\<open>StringToNumber\<close>, the number a string converts to: white space at both ends is
  dropped, the empty string is 0, and what remains is \<^verbatim>\<open>Infinity\<close> with an optional sign,
  a decimal literal with an optional sign, fraction and exponent, or digits in base 16,
  8 or 2 after \<^verbatim>\<open>0x\<close>, \<^verbatim>\<open>0o\<close> or \<^verbatim>\<open>0b\<close>; every other string is not a number. The value of
  a literal is rounded to the nearest double.
\<close>

definition digit_of :: "nat \<Rightarrow> 16 word \<Rightarrow> nat option" where
  "digit_of base c =
     (let d = (if 0x30 \<le> c \<and> c \<le> 0x39 then unat c - 0x30
               else if 0x61 \<le> c \<and> c \<le> 0x66 then unat c - 0x61 + 10
               else if 0x41 \<le> c \<and> c \<le> 0x46 then unat c - 0x41 + 10
               else base)
      in if d < base then Some d else None)"

definition digits_of :: "nat \<Rightarrow> jsstring \<Rightarrow> nat option" where
  "digits_of base s = map_option (foldl (\<lambda>n d. n * base + d) 0) (those (map (digit_of base) s))"

definition exponent_of :: "jsstring \<Rightarrow> int option" where
  "exponent_of s =
     (case s of
        [] \<Rightarrow> Some 0
      | e # ds \<Rightarrow>
          (let (negative, digits) =
                 (case ds of
                    [] \<Rightarrow> (False, [])
                  | c # cs \<Rightarrow>
                      if c = 0x2D then (True, cs) else if c = 0x2B then (False, cs)
                      else (False, ds))
           in if digits = [] then None
              else map_option (\<lambda>n. if negative then - int n else int n) (digits_of 10 digits)))"

definition StrUnsignedDecimalLiteral :: "jsstring \<Rightarrow> rat option" where
  "StrUnsignedDecimalLiteral s =
     (let mantissa = takeWhile (\<lambda>c. c \<noteq> 0x65 \<and> c \<noteq> 0x45) s;
          whole = takeWhile (\<lambda>c. c \<noteq> 0x2E) mantissa;
          fraction = drop 1 (dropWhile (\<lambda>c. c \<noteq> 0x2E) mantissa)
      in if whole = [] \<and> fraction = [] then None
         else
           (case (digits_of 10 (whole @ fraction),
                  exponent_of (dropWhile (\<lambda>c. c \<noteq> 0x65 \<and> c \<noteq> 0x45) s)) of
              (Some n, Some e) \<Rightarrow> Some (of_nat n * 10 powi (e - int (length fraction)))
            | _ \<Rightarrow> None))"

definition StrDecimalLiteral :: "jsstring \<Rightarrow> jsnum" where
  "StrDecimalLiteral s =
     (let (negative, unsigned) =
            (case s of
               [] \<Rightarrow> (False, [])
             | c # cs \<Rightarrow>
                 if c = 0x2D then (True, cs) else if c = 0x2B then (False, cs) else (False, s))
      in if unsigned = lit ''Infinity'' then (if negative then NInf else PInf)
         else (case StrUnsignedDecimalLiteral unsigned of
                 None \<Rightarrow> NaN
               | Some x \<Rightarrow> fl (if negative then - x else x)))"

definition NonDecimalIntegerLiteral :: "nat \<Rightarrow> jsstring \<Rightarrow> jsnum" where
  "NonDecimalIntegerLiteral base digits =
     (if digits = [] then NaN
      else (case digits_of base digits of None \<Rightarrow> NaN | Some n \<Rightarrow> fl (of_nat n)))"

definition StringToNumber :: "jsstring \<Rightarrow> jsnum" where
  "StringToNumber s =
     (let t = trim s
      in if t = [] then Fin 0
         else if take 2 t = lit ''0x'' \<or> take 2 t = lit ''0X''
         then NonDecimalIntegerLiteral 16 (drop 2 t)
         else if take 2 t = lit ''0o'' \<or> take 2 t = lit ''0O''
         then NonDecimalIntegerLiteral 8 (drop 2 t)
         else if take 2 t = lit ''0b'' \<or> take 2 t = lit ''0B''
         then NonDecimalIntegerLiteral 2 (drop 2 t)
         else StrDecimalLiteral t)"

text \<open>
  Converting a value to a number goes through \<^verbatim>\<open>ToPrimitive\<close> for an array or an object.
  An object parsed from JSON has no callable property, so an object with a property named
  \<^verbatim>\<open>toString\<close> of its own has no way to a primitive and the conversion throws a TypeError;
  any other object becomes the text \<^verbatim>\<open>[object Object]\<close>. An array becomes the texts of its
  elements joined by commas, with \<^verbatim>\<open>null\<close> as the empty text, and throws when one of its
  elements does. \<open>raises\<close> tells that the conversion throws.
\<close>

fun raises :: "jsval \<Rightarrow> bool" where
  "raises (Obj ps) = (lit ''toString'' \<in> fst ` set ps)"
| "raises (Arr vs) = list_ex raises vs"
| "raises v = False"

text \<open>
  \<^verbatim>\<open>ToNumber\<close> of a value whose conversion does not throw. The text of an array of two or
  more elements holds a comma and is not a number; the text of an array of one element
  is the text of that element, and the text of a number converts back to the number.
\<close>

fun ToNumber :: "jsval \<Rightarrow> jsnum" where
  "ToNumber Undefined = NaN"
| "ToNumber Null = Fin 0"
| "ToNumber (Bool b) = Fin (if b then 1 else 0)"
| "ToNumber (Num n) = n"
| "ToNumber (Str s) = StringToNumber s"
| "ToNumber (Obj ps) = NaN"
| "ToNumber (Arr []) = Fin 0"
| "ToNumber (Arr [Undefined]) = Fin 0"
| "ToNumber (Arr [Null]) = Fin 0"
| "ToNumber (Arr [Bool b]) = NaN"
| "ToNumber (Arr [Num n]) = n"
| "ToNumber (Arr [Str s]) = StringToNumber s"
| "ToNumber (Arr [Obj ps]) = NaN"
| "ToNumber (Arr [Arr vs]) = ToNumber (Arr vs)"
| "ToNumber (Arr (v # w # vs)) = NaN"

text \<open>The operators \<^verbatim>\<open>/\<close> and \<^verbatim>\<open>*\<close> on values; \<open>None\<close> is the TypeError of a conversion.\<close>

definition to_number :: "jsval \<Rightarrow> jsnum option" where
  "to_number v = (if raises v then None else Some (ToNumber v))"

definition js_divide :: "jsval \<Rightarrow> jsval \<Rightarrow> jsnum option" where
  "js_divide a b = do { x \<leftarrow> to_number a; y \<leftarrow> to_number b; Some (js_div x y) }"

definition js_times :: "jsval \<Rightarrow> jsval \<Rightarrow> jsnum option" where
  "js_times a b = do { x \<leftarrow> to_number a; y \<leftarrow> to_number b; Some (js_mul x y) }"

section \<open>The location data synthesizer\<close>

text \<open>
  The dashboard reads its numbers from a synthesizer behind the HTTP API. None of its code
  is among the sources, so every definition of this section is modelled from the
  specification. What the specification leaves open is a parameter: the function that
  derives a scale factor from a name, the base population, the table of overrides for
  large cities, the target ratios of the buckets, the pseudo-random noise (a function of
  the location, the time and the index of the draw) with its bound, the capture per tree,
  the emission of a car, and the share of the current value at which a trend starts.
  Numbers are exact rationals and integers; a timestamp counts days.
\<close>

type_synonym Timestamp = int

text \<open>
  Modelled from the spec: the identity of a location (its name and its scale factor), the
  store of the identities created so far, and the parameters of the synthesizer.
\<close>

record LocationIdentity =
  name :: jsstring
  scale_factor :: rat

record Store =
  scale_factors :: "jsstring \<rightharpoonup> rat"
  known :: "jsstring list"

record Synthesizer =
  derive_scale :: "jsstring \<Rightarrow> rat"
  base_population :: rat
  tier_override :: "jsstring \<rightharpoonup> rat"
  healthy_ratio :: rat
  moderate_ratio :: rat
  stressed_ratio :: rat
  unhealthy_ratio :: rat
  noise :: "jsstring \<Rightarrow> Timestamp \<Rightarrow> nat \<Rightarrow> rat"
  noise_bound :: rat
  per_tree_capture :: rat
  co2_per_car :: rat
  baseline_share :: rat

text \<open>
  Modelled from the spec: the health snapshot with its four buckets and their total, the
  carbon snapshot, and a point of a trend.
\<close>

record Buckets =
  healthy :: int
  moderate :: int
  stressed :: int
  unhealthy :: int
  total :: int

record HealthSnapshot =
  tree_count :: int
  tree_distribution :: Buckets
  health_score :: rat
  timestamp :: Timestamp

record CarbonSnapshot =
  annual_capture_rate :: rat
  equivalent_cars_offset :: int

record TrendPoint =
  date :: Timestamp
  health_score :: rat
  carbon_sequestration :: rat

text \<open>
  Modelled from the spec: \<^verbatim>\<open>getOrCreateLocation\<close>. A name found in the store (exact match)
  keeps its scale factor; a new name gets the scale factor derived from the string and is
  recorded as known, at the end of the list of locations.
\<close>

definition getOrCreateLocation ::
  "Synthesizer \<Rightarrow> jsstring \<Rightarrow> Store \<Rightarrow> LocationIdentity \<times> Store" where
  "getOrCreateLocation P n st =
     (case scale_factors st n of
        Some f \<Rightarrow> (\<lparr> name = n, scale_factor = f \<rparr>, st)
      | None \<Rightarrow>
          (\<lparr> name = n, scale_factor = derive_scale P n \<rparr>,
           st \<lparr> scale_factors := (scale_factors st)(n \<mapsto> derive_scale P n),
                known := known st @ [n] \<rparr>))"

text \<open>Modelled from the spec: the noise of a draw, bounded by the noise bound.\<close>

definition bounded_noise :: "Synthesizer \<Rightarrow> jsstring \<Rightarrow> Timestamp \<Rightarrow> nat \<Rightarrow> rat" where
  "bounded_noise P n at_time k =
     max (- noise_bound P) (min (noise_bound P) (noise P n at_time k))"

text \<open>
  Modelled from the spec: the tree count of a location, its scale factor times the base
  population, times the override of a large city where the table has one.
\<close>

definition tree_count_of :: "Synthesizer \<Rightarrow> LocationIdentity \<Rightarrow> int" where
  "tree_count_of P identity =
     \<lfloor>scale_factor identity * base_population P
        * (case tier_override P (name identity) of None \<Rightarrow> 1 | Some m \<Rightarrow> m)\<rfloor>"

text \<open>
  Modelled from the spec: \<^verbatim>\<open>synthesizeHealth\<close>. Each bucket gets the whole part of its
  perturbed share of the tree count, the remainder of the rounding goes to the healthy
  bucket, and the health score is the weighted average of the buckets, in percent.
\<close>

definition synthesizeHealth :: "Synthesizer \<Rightarrow> LocationIdentity \<Rightarrow> Timestamp \<Rightarrow> HealthSnapshot"
  where
  "synthesizeHealth P identity at_time =
     (let trees = tree_count_of P identity;
          share = (\<lambda>k target.
            \<lfloor>of_int trees * (target + bounded_noise P (name identity) at_time k)\<rfloor>);
          h = share 0 (healthy_ratio P);
          m = share 1 (moderate_ratio P);
          s = share 2 (stressed_ratio P);
          u = share 3 (unhealthy_ratio P);
          remainder = trees - (h + m + s + u)
      in \<lparr> tree_count = trees,
           tree_distribution =
             \<lparr> healthy = h + remainder, moderate = m, stressed = s, unhealthy = u,
               total = trees \<rparr>,
           health_score =
             (if trees = 0 then 0
              else (of_int (h + remainder) * 1 + of_int m * (3 / 5) + of_int s * (3 / 10)
                    + of_int u * 0) / of_int trees * 100),
           timestamp = at_time \<rparr>)"

text \<open>Modelled from the spec: \<^verbatim>\<open>synthesizeCarbon\<close>, with the cars offset rounded to nearest.\<close>

definition synthesizeCarbon :: "Synthesizer \<Rightarrow> HealthSnapshot \<Rightarrow> CarbonSnapshot" where
  "synthesizeCarbon P snapshot =
     (let rate = of_int (tree_count snapshot) * per_tree_capture P
                 * (HealthSnapshot.health_score snapshot / 100)
      in \<lparr> annual_capture_rate = rate,
           equivalent_cars_offset = \<lfloor>rate / co2_per_car P + 1 / 2\<rfloor> \<rparr>)"

text \<open>
  Modelled from the spec: the interpolation of a trend. The value of point \<open>i\<close> approaches
  the current value linearly from the baseline, and its noise is scaled by the distance
  of the point from the last one.
\<close>

definition approach :: "rat \<Rightarrow> rat \<Rightarrow> rat \<Rightarrow> nat \<Rightarrow> nat \<Rightarrow> rat" where
  "approach current baseline wobble windowDays i =
     baseline + (current - baseline) * of_nat (i + 1) / of_nat windowDays
       + wobble * of_nat (windowDays - 1 - i) / of_nat windowDays"

text \<open>
  Modelled from the spec: \<^verbatim>\<open>synthesizeTrend\<close>, one point a day for the days of the
  window, the last one today, from a baseline that is a share of the current value.
\<close>

definition synthesizeTrend ::
  "Synthesizer \<Rightarrow> LocationIdentity \<Rightarrow> nat \<Rightarrow> Timestamp \<Rightarrow> TrendPoint list" where
  "synthesizeTrend P identity windowDays now =
     (let current = synthesizeHealth P identity now;
          score = HealthSnapshot.health_score current;
          carbon = annual_capture_rate (synthesizeCarbon P current)
      in map (\<lambda>i.
           \<lparr> date = now - int (windowDays - 1 - i),
             health_score =
               approach score (baseline_share P * score)
                 (bounded_noise P (name identity) now (2 * i)) windowDays i,
             carbon_sequestration =
               approach carbon (baseline_share P * carbon)
                 (bounded_noise P (name identity) now (2 * i + 1)) windowDays i \<rparr>)
         [0..<windowDays])"

text \<open>
  Modelled from the spec: the store after a sequence of requests, each of which looks up
  or creates its location.
\<close>

definition serve :: "Synthesizer \<Rightarrow> jsstring list \<Rightarrow> Store \<Rightarrow> Store" where
  "serve P ns st = fold (\<lambda>n s. snd (getOrCreateLocation P n s)) ns st"

text \<open>
  Modelled from the spec: a configuration under which the counts are counts. The scale
  factor, the base population and the override are not negative, no perturbed share is
  negative, and the perturbed shares of the three other buckets leave room for the
  healthy one.
\<close>

definition well_configured :: "Synthesizer \<Rightarrow> LocationIdentity \<Rightarrow> bool" where
  "well_configured P identity \<longleftrightarrow>
     0 \<le> scale_factor identity \<and> 0 \<le> base_population P
     \<and> (case tier_override P (name identity) of None \<Rightarrow> True | Some m \<Rightarrow> 0 \<le> m)
     \<and> 0 \<le> noise_bound P
     \<and> noise_bound P \<le> healthy_ratio P \<and> noise_bound P \<le> moderate_ratio P
     \<and> noise_bound P \<le> stressed_ratio P \<and> noise_bound P \<le> unhealthy_ratio P
     \<and> moderate_ratio P + stressed_ratio P + unhealthy_ratio P + 3 * noise_bound P \<le> 1"

section \<open>The API client\<close>

text \<open>
  The fetchers are those of the API client module whose endpoints are \<^verbatim>\<open>/api/health\<close>,
  \<^verbatim>\<open>/api/carbon\<close> and \<^verbatim>\<open>/api/trends\<close> (the module that follows \<^verbatim>\<open>App.tsx\<close> in
  \<^verbatim>\<open>src/frontend/src/App.tsx\<close>, lines 41 to 275). The network is a function \<open>fetch\<close> from
  the requested URL to the outcome of the request: the promise rejects, or it resolves
  to a response with its \<^verbatim>\<open>ok\<close> flag and the value that \<^verbatim>\<open>response.json()\<close> parses
  (\<open>None\<close> when the body is not JSON and \<^verbatim>\<open>json()\<close> rejects). A fetcher returns the URLs
  it has requested, and the value its promise resolves to or the error it rejects with.
\<close>

datatype fetch_result = NetworkFailure | HttpResponse bool "jsval option"

datatype fetch_error = Error string | Rejection | URIError | TypeError

type_synonym 'a fetched = "jsstring list \<times> (fetch_error + 'a)"

record OverviewMetrics =
  total_trees :: jsval
  forest_coverage_hectares :: jsnum
  annual_co2_capture_tons :: jsval
  health_score_percentage :: jsval
  locations_monitored :: jsnum
  last_updated :: jsval

record HealthDistribution =
  healthy :: jsval
  moderate :: jsval
  stressed :: jsval
  unhealthy :: jsval
  total :: jsval
  healthy_percentage :: jsnum
  moderate_percentage :: jsnum
  stressed_percentage :: jsnum
  unhealthy_percentage :: jsnum

record CarbonLocation =
  location :: jsval
  carbon_tons :: jsval
  tree_count :: jsval
  timestamp :: jsval

record CarbonData =
  total_carbon_tons :: jsval
  annual_capture_rate :: jsval
  equivalent_cars_offset :: jsnum
  locations :: "CarbonLocation list"

record NDVIData =
  current_average :: jsval
  healthy_percentage :: jsnum
  moderate_percentage :: jsnum
  stressed_percentage :: jsnum
  unhealthy_percentage :: jsnum

record TrendData =
  weeks :: "jsstring list"
  tree_counts :: "jsnum list"
  carbon_capture :: "jsval list"

text \<open>\<^verbatim>\<open>location && location !== 'all' ? location : 'Seattle'\<close>, with \<open>loc\<close> for the
  parameter \<^verbatim>\<open>location\<close> (\<open>None\<close> when the argument is undefined).\<close>

definition targetLocation :: "jsstring option \<Rightarrow> jsstring" where
  "targetLocation loc =
     (case loc of
        None \<Rightarrow> lit ''Seattle''
      | Some l \<Rightarrow> if l \<noteq> [] \<and> l \<noteq> lit ''all'' then l else lit ''Seattle'')"

text \<open>
  \<open>request\<close> is the part every fetcher shares: \<^verbatim>\<open>await fetch(url)\<close>, the throw on a
  response that is not ok, and \<^verbatim>\<open>await response.json()\<close>; \<open>received\<close> is what becomes of
  the outcome of \<^verbatim>\<open>fetch\<close>. The URL is \<open>None\<close> when building it raised URIError, and
  nothing is requested then. \<open>transformed\<close> applies the transform of a fetcher to the
  body; a TypeError in the transform rejects the promise.
\<close>

definition received :: "fetch_result \<Rightarrow> string \<Rightarrow> fetch_error + jsval" where
  "received response message =
     (case response of
        NetworkFailure \<Rightarrow> Inl Rejection
      | HttpResponse ok body \<Rightarrow>
          if \<not> ok then Inl (Error message)
          else (case body of None \<Rightarrow> Inl Rejection | Some parsed \<Rightarrow> Inr parsed))"

definition request ::
  "(jsstring \<Rightarrow> fetch_result) \<Rightarrow> jsstring option \<Rightarrow> string \<Rightarrow> jsval fetched" where
  "request fetch url message =
     (case url of
        None \<Rightarrow> ([], Inl URIError)
      | Some u \<Rightarrow> ([u], received (fetch u) message))"

definition transformed :: "(jsval \<Rightarrow> 'a option) \<Rightarrow> jsval fetched \<Rightarrow> 'a fetched" where
  "transformed transform r =
     (fst r,
      case snd r of
        Inl e \<Rightarrow> Inl e
      | Inr body \<Rightarrow> (case transform body of None \<Rightarrow> Inl TypeError | Some v \<Rightarrow> Inr v))"

definition health_url :: "jsstring \<Rightarrow> jsstring option \<Rightarrow> jsstring option" where
  "health_url API_BASE_URL loc =
     map_option (\<lambda>enc. API_BASE_URL @ lit ''/api/health?location='' @ enc)
       (encodeURIComponent (targetLocation loc))"

text \<open>
  The transform of \<^verbatim>\<open>fetchOverviewMetrics\<close>. \<open>now\<close> is the text of
  \<^verbatim>\<open>new Date().toISOString()\<close>.
\<close>

definition overview_of :: "jsstring \<Rightarrow> jsval \<Rightarrow> OverviewMetrics option" where
  "overview_of now body = do {
     distribution \<leftarrow> get body ''tree_distribution'';
     let trees = or_else (get_opt distribution ''total'') (Num (Fin 0));
     hectares \<leftarrow> js_divide trees (Num (Fin 100));
     sequestration \<leftarrow> get body ''carbon_sequestration'';
     score \<leftarrow> get body ''health_score'';
     stamp \<leftarrow> get body ''timestamp'';
     Some \<lparr> total_trees = trees,
            forest_coverage_hectares = Math_round hectares,
            annual_co2_capture_tons = or_else sequestration (Num (Fin 0)),
            health_score_percentage = or_else score (Num (Fin 0)),
            locations_monitored = Fin 25,
            last_updated = or_else stamp (Str now) \<rparr> }"

definition fetchOverviewMetrics ::
  "jsstring \<Rightarrow> (jsstring \<Rightarrow> fetch_result) \<Rightarrow> jsstring \<Rightarrow> jsstring option
     \<Rightarrow> OverviewMetrics fetched" where
  "fetchOverviewMetrics API_BASE_URL fetch now loc =
     transformed (overview_of now)
       (request fetch (health_url API_BASE_URL loc) ''Failed to fetch overview metrics'')"

text \<open>\<^verbatim>\<open>const dist = data.tree_distribution || {}\<close>\<close>

definition dist_of :: "jsval \<Rightarrow> jsval option" where
  "dist_of body = map_option (\<lambda>d. or_else d (Obj [])) (get body ''tree_distribution'')"

text \<open>\<^verbatim>\<open>Math.round(((bucket || 0) / total) * 100)\<close>\<close>

definition percentage :: "jsval \<Rightarrow> jsval \<Rightarrow> jsnum option" where
  "percentage bucket divisor = do {
     q \<leftarrow> js_divide (or_else bucket (Num (Fin 0))) divisor;
     Some (Math_round (js_mul q (Fin 100))) }"

definition health_distribution_of :: "jsval \<Rightarrow> HealthDistribution option" where
  "health_distribution_of body = do {
     dist \<leftarrow> dist_of body;
     whole \<leftarrow> get dist ''total'';
     let divisor = or_else whole (Num (Fin 1));
     h \<leftarrow> get dist ''healthy'';
     m \<leftarrow> get dist ''moderate'';
     s \<leftarrow> get dist ''stressed'';
     u \<leftarrow> get dist ''unhealthy'';
     hp \<leftarrow> percentage h divisor;
     mp \<leftarrow> percentage m divisor;
     sp \<leftarrow> percentage s divisor;
     up \<leftarrow> percentage u divisor;
     Some \<lparr> HealthDistribution.healthy = or_else h (Num (Fin 0)),
            HealthDistribution.moderate = or_else m (Num (Fin 0)),
            HealthDistribution.stressed = or_else s (Num (Fin 0)),
            HealthDistribution.unhealthy = or_else u (Num (Fin 0)),
            HealthDistribution.total = divisor,
            HealthDistribution.healthy_percentage = hp,
            HealthDistribution.moderate_percentage = mp,
            HealthDistribution.stressed_percentage = sp,
            HealthDistribution.unhealthy_percentage = up \<rparr> }"

definition fetchHealthDistribution ::
  "jsstring \<Rightarrow> (jsstring \<Rightarrow> fetch_result) \<Rightarrow> jsstring option
     \<Rightarrow> HealthDistribution fetched" where
  "fetchHealthDistribution API_BASE_URL fetch loc =
     transformed health_distribution_of
       (request fetch (health_url API_BASE_URL loc) ''Failed to fetch health distribution'')"

definition carbon_url :: "jsstring \<Rightarrow> jsstring option" where
  "carbon_url API_BASE_URL = Some (API_BASE_URL @ lit ''/api/carbon?location=Seattle'')"

text \<open>
  The transform of \<^verbatim>\<open>fetchCarbonData\<close>. The literal \<^verbatim>\<open>4.6\<close> denotes the double nearest to
  23/5.
\<close>

definition carbon_data_of :: "jsstring \<Rightarrow> jsval \<Rightarrow> CarbonData option" where
  "carbon_data_of now body = do {
     annual \<leftarrow> get body ''annual_sequestration_tons'';
     offset \<leftarrow> get body ''co2_equivalent_offset'';
     cars \<leftarrow> js_divide (or_else offset (Num (Fin 0))) (Num (fl (23 / 5)));
     place \<leftarrow> get body ''location'';
     monitored \<leftarrow> get body ''trees_monitored'';
     stamp \<leftarrow> get body ''timestamp'';
     Some \<lparr> total_carbon_tons = or_else annual (Num (Fin 0)),
            annual_capture_rate = or_else annual (Num (Fin 0)),
            equivalent_cars_offset = Math_round cars,
            locations =
              [\<lparr> CarbonLocation.location = place,
                 carbon_tons = or_else annual (Num (Fin 0)),
                 tree_count = or_else monitored (Num (Fin 0)),
                 CarbonLocation.timestamp = or_else stamp (Str now) \<rparr>] \<rparr> }"

definition fetchCarbonData ::
  "jsstring \<Rightarrow> (jsstring \<Rightarrow> fetch_result) \<Rightarrow> jsstring \<Rightarrow> CarbonData fetched" where
  "fetchCarbonData API_BASE_URL fetch now =
     transformed (carbon_data_of now)
       (request fetch (carbon_url API_BASE_URL) ''Failed to fetch carbon data'')"

definition ndvi_url :: "jsstring \<Rightarrow> jsstring option" where
  "ndvi_url API_BASE_URL = Some (API_BASE_URL @ lit ''/api/health?location=Seattle'')"

definition ndvi_data_of :: "jsval \<Rightarrow> NDVIData option" where
  "ndvi_data_of body = do {
     score \<leftarrow> get body ''health_score'';
     dist \<leftarrow> dist_of body;
     whole \<leftarrow> get dist ''total'';
     let divisor = or_else whole (Num (Fin 1));
     h \<leftarrow> get dist ''healthy'';
     m \<leftarrow> get dist ''moderate'';
     s \<leftarrow> get dist ''stressed'';
     u \<leftarrow> get dist ''unhealthy'';
     hp \<leftarrow> percentage h divisor;
     mp \<leftarrow> percentage m divisor;
     sp \<leftarrow> percentage s divisor;
     up \<leftarrow> percentage u divisor;
     Some \<lparr> current_average = or_else score (Num (Fin 0)),
            NDVIData.healthy_percentage = hp,
            NDVIData.moderate_percentage = mp,
            NDVIData.stressed_percentage = sp,
            NDVIData.unhealthy_percentage = up \<rparr> }"

definition fetchNDVIData :: "jsstring \<Rightarrow> (jsstring \<Rightarrow> fetch_result) \<Rightarrow> NDVIData fetched" where
  "fetchNDVIData API_BASE_URL fetch =
     transformed ndvi_data_of
       (request fetch (ndvi_url API_BASE_URL) ''Failed to fetch NDVI data'')"

definition trend_url :: "jsstring \<Rightarrow> jsstring option" where
  "trend_url API_BASE_URL = Some (API_BASE_URL @ lit ''/api/trends?location=Seattle&days=30'')"

text \<open>
  The transform of \<^verbatim>\<open>fetchTrendData\<close>. \<^verbatim>\<open>data.trends || []\<close> must be an array for
  \<^verbatim>\<open>trends.map\<close> to be a function. \<^verbatim>\<open>new Date(item.date).toLocaleDateString()\<close> depends on
  the locale and the time zone of the browser: it is the parameter \<open>toLocaleDateString\<close>, a
  function of the value of \<^verbatim>\<open>item.date\<close>, which \<^verbatim>\<open>new Date\<close> converts to a primitive first.
\<close>

definition trend_items :: "jsval \<Rightarrow> jsval list option" where
  "trend_items trends = (case or_else trends (Arr []) of Arr items \<Rightarrow> Some items | _ \<Rightarrow> None)"

definition week_of :: "(jsval \<Rightarrow> jsstring) \<Rightarrow> jsval \<Rightarrow> jsstring option" where
  "week_of toLocaleDateString item = do {
     d \<leftarrow> get item ''date'';
     if raises d then None else Some (toLocaleDateString d) }"

definition tree_count_of_item :: "jsval \<Rightarrow> jsnum option" where
  "tree_count_of_item item = do {
     score \<leftarrow> get item ''health_score'';
     scaled \<leftarrow> js_times score (Num (Fin 1000));
     Some (Math_round scaled) }"

definition carbon_of_item :: "jsval \<Rightarrow> jsval option" where
  "carbon_of_item item = do {
     sequestration \<leftarrow> get item ''carbon_sequestration'';
     Some (or_else sequestration (Num (Fin 0))) }"

definition trend_data_of :: "(jsval \<Rightarrow> jsstring) \<Rightarrow> jsval \<Rightarrow> TrendData option" where
  "trend_data_of toLocaleDateString body = do {
     trends \<leftarrow> get body ''trends'';
     items \<leftarrow> trend_items trends;
     ws \<leftarrow> those (map (week_of toLocaleDateString) items);
     ts \<leftarrow> those (map tree_count_of_item items);
     cs \<leftarrow> those (map carbon_of_item items);
     Some \<lparr> weeks = ws, tree_counts = ts, carbon_capture = cs \<rparr> }"

definition fetchTrendData ::
  "jsstring \<Rightarrow> (jsstring \<Rightarrow> fetch_result) \<Rightarrow> (jsval \<Rightarrow> jsstring) \<Rightarrow> TrendData fetched" where
  "fetchTrendData API_BASE_URL fetch toLocaleDateString =
     transformed (trend_data_of toLocaleDateString)
       (request fetch (trend_url API_BASE_URL) ''Failed to fetch trend data'')"

text \<open>
  The sources hold a second client module, \<^verbatim>\<open>src/frontend/src/hooks/useAPI.ts\<close>, written
  for the API at \<^verbatim>\<open>http://localhost:8000\<close> that the location selector also calls. Its
  fetchers return the body of the response as it is; what differs for the properties
  below is the URL of its overview and distribution fetchers, which name a location only
  when one is selected.
\<close>

definition localhost_url :: "string \<Rightarrow> jsstring option \<Rightarrow> jsstring option" where
  "localhost_url path loc =
     (case loc of
        None \<Rightarrow> Some (lit ''http://localhost:8000'' @ lit path)
      | Some l \<Rightarrow>
          if l \<noteq> [] \<and> l \<noteq> lit ''all''
          then map_option (\<lambda>enc. lit ''http://localhost:8000'' @ lit path @ lit ''?location='' @ enc)
                 (encodeURIComponent l)
          else Some (lit ''http://localhost:8000'' @ lit path))"

definition localhost_overview_url :: "jsstring option \<Rightarrow> jsstring option" where
  "localhost_overview_url loc = localhost_url ''/api/metrics/overview'' loc"

definition localhost_distribution_url :: "jsstring option \<Rightarrow> jsstring option" where
  "localhost_distribution_url loc = localhost_url ''/api/health/distribution'' loc"

text \<open>
  Modelled from the spec: the body of a trends response, one item for each point of the
  series, in the order of the series. \<open>isoformat\<close> writes a timestamp as text; a value
  is sent as the double nearest to it.
\<close>

definition trends_response :: "(Timestamp \<Rightarrow> jsstring) \<Rightarrow> TrendPoint list \<Rightarrow> jsval" where
  "trends_response isoformat series =
     Obj [(lit ''trends'', Arr (map (\<lambda>p.
       Obj [(lit ''date'', Str (isoformat (TrendPoint.date p))),
            (lit ''health_score'', Num (fl (TrendPoint.health_score p))),
            (lit ''carbon_sequestration'', Num (fl (TrendPoint.carbon_sequestration p)))])
       series))]"

section \<open>Queries and views\<close>

text \<open>
  A component reads \<^verbatim>\<open>data\<close>, \<^verbatim>\<open>isLoading\<close> and \<^verbatim>\<open>error\<close> from the result of \<^verbatim>\<open>useQuery\<close>.
  \<open>settle\<close> is the result the query library reports once the promise of the fetcher has
  settled and its retries are used up: a rejection sets \<^verbatim>\<open>error\<close> and keeps what an
  earlier fetch had delivered (\<open>previous\<close>), a resolution sets \<^verbatim>\<open>data\<close>.
\<close>

record 'a query =
  data :: "'a option"
  isLoading :: bool
  error :: "fetch_error option"


text \<open>
  What a component renders: a loading state with its caption, a static failure state
  with its lines of text, or the content with the values it displays and the views of
  its child components; \<open>Thrown\<close> is a render that throws a TypeError. \<open>Value v\<close> is a
  value placed in the markup, \<open>Fixed n x\<close> stands for \<^verbatim>\<open>x.toFixed(n)\<close>, which only a number
  provides. How the rendering library turns a placed value into text is outside the model.
  Static captions, icons and styling are left out, and so is the bar chart of the carbon
  page, which scales the values displayed above it.
\<close>

datatype shown = Value jsval | Fixed nat jsnum | Text string | Label jsstring

datatype view = Loading string | Failed "string list" | Content "shown list" "view list" | Thrown

fun metric_values :: "view \<Rightarrow> shown list" where
  "metric_values (Content values children) = values @ concat (map metric_values children)"
| "metric_values v = []"

definition toFixed :: "nat \<Rightarrow> jsval \<Rightarrow> shown option" where
  "toFixed n v = (case v of Num x \<Rightarrow> Some (Fixed n x) | _ \<Rightarrow> None)"

definition rendered :: "shown option list \<Rightarrow> view list \<Rightarrow> view" where
  "rendered values children =
     (case those values of None \<Rightarrow> Thrown | Some vs \<Rightarrow> Content vs children)"

definition HealthChart :: "HealthDistribution query \<Rightarrow> view" where
  "HealthChart q =
     (if isLoading q then Loading []
      else if error q \<noteq> None \<or> data q = None then Failed [''Failed to load health data'']
      else (case data q of
              None \<Rightarrow> Failed [''Failed to load health data'']
            | Some healthDistribution \<Rightarrow>
                Content
                  [Value (Num (HealthDistribution.healthy_percentage healthDistribution)),
                   Value (Num (HealthDistribution.moderate_percentage healthDistribution)),
                   Value (Num (HealthDistribution.stressed_percentage healthDistribution)),
                   Value (Num (HealthDistribution.unhealthy_percentage healthDistribution))]
                  []))"

definition at_index :: "'a list \<Rightarrow> nat \<Rightarrow> 'a option" where
  "at_index xs i = (if i < length xs then Some (xs ! i) else None)"

definition TrendChart :: "TrendData query \<Rightarrow> view" where
  "TrendChart q =
     (if isLoading q then Loading []
      else if error q \<noteq> None \<or> data q = None then Failed [''Failed to load trend data'']
      else (case data q of
              None \<Rightarrow> Failed [''Failed to load trend data'']
            | Some trendData \<Rightarrow>
                Content
                  (concat (map (\<lambda>(index, week).
                      [Label week,
                       Value (case at_index (tree_counts trendData) index of
                                None \<Rightarrow> Undefined | Some n \<Rightarrow> Num n),
                       Value (case at_index (carbon_capture trendData) index of
                                None \<Rightarrow> Undefined | Some v \<Rightarrow> v)])
                    (enumerate 0 (weeks trendData)))) []))"

text \<open>
  The overview page. The literals \<^verbatim>\<open>1.6\<close> and \<^verbatim>\<open>0.22\<close> denote the doubles nearest to 8/5
  and 11/50. The two charts are given by their own queries.
\<close>

definition scaled_fixed :: "nat \<Rightarrow> jsval \<Rightarrow> jsnum \<Rightarrow> shown option" where
  "scaled_fixed n v factor = map_option (Fixed n) (js_times v (Num factor))"

definition Index ::
  "jsstring \<Rightarrow> OverviewMetrics query \<Rightarrow> HealthDistribution query \<Rightarrow> TrendData query \<Rightarrow> view"
  where
  "Index selectedLocation q health trend =
     (if isLoading q then Loading ''Loading forest data...''
      else if error q \<noteq> None
      then Failed [''Failed to load forest data'', ''Please ensure the API server is running'']
      else rendered
        ((if selectedLocation \<noteq> [] \<and> selectedLocation \<noteq> lit ''all''
          then [Some (Label selectedLocation)] else [])
         @ (case data q of
              None \<Rightarrow>
                [Some (Value (Num (Fin 0))), Some (Value (Num (Fin 0))), Some (Text ''0''),
                 Some (Text ''0''), Some (Text ''0''), Some (Text ''0''), Some (Text ''0'')]
            | Some metrics \<Rightarrow>
                [Some (Value (or_else (total_trees metrics) (Num (Fin 0)))),
                 Some (Value (or_else (Num (forest_coverage_hectares metrics)) (Num (Fin 0)))),
                 toFixed 1 (annual_co2_capture_tons metrics),
                 toFixed 0 (health_score_percentage metrics),
                 toFixed 1 (annual_co2_capture_tons metrics),
                 (if ToBoolean (annual_co2_capture_tons metrics)
                  then scaled_fixed 0 (annual_co2_capture_tons metrics) (fl (8 / 5))
                  else Some (Text ''0'')),
                 (if ToBoolean (annual_co2_capture_tons metrics)
                  then map_option (\<lambda>x. Value (Num (Math_round x)))
                         (js_times (annual_co2_capture_tons metrics) (Num (fl (11 / 50))))
                  else Some (Text ''0''))]))
        [HealthChart health, TrendChart trend])"


definition CarbonPage :: "CarbonData query \<Rightarrow> view" where
  "CarbonPage q =
     (if isLoading q then Loading ''Loading carbon data...''
      else if error q \<noteq> None \<or> data q = None
      then Failed [''Failed to load carbon data'', ''Please ensure the API server is running'']
      else (case data q of
              None \<Rightarrow>
                Failed [''Failed to load carbon data'',
                        ''Please ensure the API server is running'']
            | Some carbonData \<Rightarrow>
                rendered
                  [toFixed 1 (annual_capture_rate carbonData),
                   Some (Value (Num (equivalent_cars_offset carbonData))),
                   scaled_fixed 1 (annual_capture_rate carbonData) (fl (8 / 5)),
                   Some (Text ''437,500''),
                   toFixed 1 (annual_capture_rate carbonData),
                   Some (Value (Num (equivalent_cars_offset carbonData))),
                   scaled_fixed 0 (annual_capture_rate carbonData) (Fin 30)] []))"


text \<open>A fetch has failed when the promise of its fetcher has rejected.\<close>

definition rejected :: "'a fetched \<Rightarrow> bool" where
  "rejected outcome = isl (snd outcome)"

section \<open>The location selector\<close>

text \<open>
  \<^verbatim>\<open>LocationSelector.tsx\<close>: the handlers of the search box. The state is the selected
  location (changed through \<^verbatim>\<open>onLocationChange\<close>, which is handed whatever value the
  search response names) and the three state hooks of the component. A handler returns
  the URLs it passed to \<^verbatim>\<open>fetch\<close>, how often it refetched the list of locations, and the
  state it leaves. \<^verbatim>\<open>filteredLocations\<close>, which the component computes while rendering, is
  a parameter; the filter has called \<^verbatim>\<open>toLowerCase\<close> on the name of each of its elements,
  so each name is a string.
\<close>

record LocationInfo =
  name :: jsstring
  data_points :: jsval

record selector =
  selectedLocation :: jsval
  searchTerm :: jsstring
  isOpen :: bool
  isAddingNew :: bool

record handled =
  requests :: "jsstring list"
  refetches :: nat
  after :: selector

definition handleLocationSelect :: "jsval \<Rightarrow> selector \<Rightarrow> selector" where
  "handleLocationSelect loc st =
     st \<lparr> selectedLocation := loc, isOpen := False, searchTerm := [], isAddingNew := False \<rparr>"

text \<open>
  \<^verbatim>\<open>data.locations && data.locations.length > 0\<close> and \<^verbatim>\<open>data.locations[0].location\<close> on the
  body of the search response: \<open>None\<close> is a TypeError, \<open>Some None\<close> a test that fails, and
  \<open>Some (Some v)\<close> the new location.
\<close>

definition length_of :: "jsval \<Rightarrow> jsval" where
  "length_of v =
     (case v of
        Str s \<Rightarrow> Num (Fin (of_nat (length s)))
      | Arr xs \<Rightarrow> Num (Fin (of_nat (length xs)))
      | Obj ps \<Rightarrow> get_opt v ''length''
      | _ \<Rightarrow> Undefined)"

definition first_of :: "jsval \<Rightarrow> jsval" where
  "first_of v =
     (case v of
        Str s \<Rightarrow> (case s of [] \<Rightarrow> Undefined | c # cs \<Rightarrow> Str [c])
      | Arr xs \<Rightarrow> (case xs of [] \<Rightarrow> Undefined | x # rest \<Rightarrow> x)
      | Obj ps \<Rightarrow> get_opt v ''0''
      | _ \<Rightarrow> Undefined)"

definition greater_than_zero :: "jsval \<Rightarrow> bool option" where
  "greater_than_zero v =
     map_option (\<lambda>n. case n of Fin x \<Rightarrow> 0 < x | PInf \<Rightarrow> True | _ \<Rightarrow> False) (to_number v)"

definition newLocation :: "jsval \<Rightarrow> jsval option option" where
  "newLocation body = do {
     found \<leftarrow> get body ''locations'';
     if \<not> ToBoolean found then Some None
     else do {
       positive \<leftarrow> greater_than_zero (length_of found);
       if \<not> positive then Some None
       else map_option Some (get (first_of found) ''location'') } }"

text \<open>
  \<^verbatim>\<open>handleAddNewLocation\<close>: the early return on a short term, then the \<^verbatim>\<open>try\<close> block, whose
  \<^verbatim>\<open>catch\<close> swallows a URIError of \<^verbatim>\<open>encodeURIComponent\<close>, a rejection of \<^verbatim>\<open>fetch\<close>, a
  rejection of \<^verbatim>\<open>response.json()\<close> and a TypeError on the body.
\<close>

definition handleAddNewLocation :: "(jsstring \<Rightarrow> fetch_result) \<Rightarrow> selector \<Rightarrow> handled" where
  "handleAddNewLocation fetch st =
     (if length (trim (searchTerm st)) < 2 then \<lparr> requests = [], refetches = 0, after = st \<rparr>
      else
        (case encodeURIComponent (trim (searchTerm st)) of
           None \<Rightarrow> \<lparr> requests = [], refetches = 0, after = st \<rparr>
         | Some q \<Rightarrow>
             (let url = lit ''http://localhost:8000/api/locations/search?q='' @ q
              in case fetch url of
                   NetworkFailure \<Rightarrow> \<lparr> requests = [url], refetches = 0, after = st \<rparr>
                 | HttpResponse ok body \<Rightarrow>
                     if ok then
                       (case body of
                          None \<Rightarrow> \<lparr> requests = [url], refetches = 0, after = st \<rparr>
                        | Some parsed \<Rightarrow>
                            (case newLocation parsed of
                               Some (Some loc) \<Rightarrow>
                                 \<lparr> requests = [url], refetches = 1,
                                   after = handleLocationSelect loc st \<rparr>
                             | _ \<Rightarrow> \<lparr> requests = [url], refetches = 0, after = st \<rparr>))
                     else \<lparr> requests = [url], refetches = 0, after = st \<rparr>)))"

definition handleKeyPress ::
  "jsstring \<Rightarrow> LocationInfo list \<Rightarrow> (jsstring \<Rightarrow> fetch_result) \<Rightarrow> selector \<Rightarrow> handled" where
  "handleKeyPress key filteredLocations fetch st =
     (if key = lit ''Enter'' \<and> 2 \<le> length (trim (searchTerm st)) then
        (case filteredLocations of
           first # rest \<Rightarrow>
             \<lparr> requests = [], refetches = 0,
               after = handleLocationSelect (Str (LocationInfo.name first)) st \<rparr>
         | [] \<Rightarrow> handleAddNewLocation fetch st)
      else \<lparr> requests = [], refetches = 0, after = st \<rparr>)"

text \<open>A string is well formed when every surrogate code unit is part of a pair.\<close>

fun well_formed :: "jsstring \<Rightarrow> bool" where
  "well_formed [] = True"
| "well_formed [c] = (\<not> is_lead_surrogate c \<and> \<not> is_trail_surrogate c)"
| "well_formed (c # d # ds) =
     (if is_lead_surrogate c then is_trail_surrogate d \<and> well_formed ds
      else \<not> is_trail_surrogate c \<and> well_formed (d # ds))"

text \<open>
  Ranges for the fields of a distribution: a bucket that is missing or a finite number of
  magnitude at most \<open>2\<^sup>5\<^sup>3\<close>, and a total that is missing, zero, or a finite number of
  magnitude between 1 and \<open>2\<^sup>5\<^sup>3\<close>. Every count of trees that a double holds exactly is
  in these ranges. \<open>finite_number\<close> tells that a value is a finite number.
\<close>

definition count_in_range :: "jsval \<Rightarrow> bool" where
  "count_in_range v =
     (case v of Undefined \<Rightarrow> True | Num (Fin x) \<Rightarrow> \<bar>x\<bar> \<le> 2 ^ 53 | _ \<Rightarrow> False)"

definition total_in_range :: "jsval \<Rightarrow> bool" where
  "total_in_range v =
     (case v of
        Undefined \<Rightarrow> True
      | Num (Fin x) \<Rightarrow> x = 0 \<or> (1 \<le> \<bar>x\<bar> \<and> \<bar>x\<bar> \<le> 2 ^ 53)
      | _ \<Rightarrow> False)"

definition finite_number :: "jsval \<Rightarrow> bool" where
  "finite_number v = (case v of Num n \<Rightarrow> is_finite n | _ \<Rightarrow> False)"

section \<open>Properties\<close>

subsection \<open>The synthesizer\<close>

lemma bounded_noise_bounds:
  assumes "0 \<le> noise_bound P"
  shows "- noise_bound P \<le> bounded_noise P n t k" and "bounded_noise P n t k \<le> noise_bound P"
  using assms by (simp_all add: bounded_noise_def)

lemma share_bounds:
  assumes "0 \<le> trees" and "0 \<le> b" and "b \<le> target" and "- b \<le> w" and "w \<le> b"
  shows "0 \<le> \<lfloor>of_int trees * (target + w) :: rat\<rfloor>"
    and "of_int \<lfloor>of_int trees * (target + w) :: rat\<rfloor> \<le> of_int trees * (target + b)"
proof -
  have "0 \<le> (of_int trees :: rat) * (target + w)"
    using assms by (intro mult_nonneg_nonneg) simp_all
  then show "0 \<le> \<lfloor>of_int trees * (target + w) :: rat\<rfloor>" by simp
  have "of_int \<lfloor>of_int trees * (target + w) :: rat\<rfloor> \<le> of_int trees * (target + w)"
    by (rule of_int_floor_le)
  also have "\<dots> \<le> of_int trees * (target + b)"
    using assms by (intro mult_left_mono) simp_all
  finally show "of_int \<lfloor>of_int trees * (target + w) :: rat\<rfloor> \<le> of_int trees * (target + b)" .
qed

lemma tree_count_of_nonneg:
  assumes "well_configured P identity"
  shows "0 \<le> tree_count_of P identity"
proof -
  have "0 \<le> scale_factor identity * base_population P
        * (case tier_override P (LocationIdentity.name identity) of None \<Rightarrow> 1 | Some m \<Rightarrow> m)"
    using assms
    by (intro mult_nonneg_nonneg) (auto simp add: well_configured_def split: option.splits)
  then show ?thesis by (simp add: tree_count_of_def)
qed

text \<open>
  C1. In every health snapshot the four buckets add up to the total, and the total is the
  tree count, with no drift from rounding: the whole parts of the four shares are taken
  first and what they leave of the tree count is added to the healthy bucket. Under a
  configuration whose shares cannot be negative and leave room for the healthy bucket,
  no bucket is negative, so the buckets partition the trees.
\<close>

theorem bucket_counts_add_up:
  fixes P :: Synthesizer and identity :: LocationIdentity and t :: Timestamp
  defines "s \<equiv> synthesizeHealth P identity t"
  defines "d \<equiv> HealthSnapshot.tree_distribution s"
  shows "Buckets.healthy d + Buckets.moderate d + Buckets.stressed d + Buckets.unhealthy d
      = Buckets.total d
    \<and> Buckets.total d = HealthSnapshot.tree_count s
    \<and> HealthSnapshot.tree_count s = tree_count_of P identity
    \<and> (well_configured P identity \<longrightarrow>
        0 \<le> Buckets.healthy d \<and> 0 \<le> Buckets.moderate d \<and> 0 \<le> Buckets.stressed d
        \<and> 0 \<le> Buckets.unhealthy d)"
proof -
  define trees where "trees = tree_count_of P identity"
  define w where "w = bounded_noise P (LocationIdentity.name identity) t"
  define h where "h = \<lfloor>of_int trees * (healthy_ratio P + w 0)\<rfloor>"
  define m where "m = \<lfloor>of_int trees * (moderate_ratio P + w 1)\<rfloor>"
  define st where "st = \<lfloor>of_int trees * (stressed_ratio P + w 2)\<rfloor>"
  define u where "u = \<lfloor>of_int trees * (unhealthy_ratio P + w 3)\<rfloor>"
  have d: "d = \<lparr> Buckets.healthy = h + (trees - (h + m + st + u)), Buckets.moderate = m,
                 Buckets.stressed = st, Buckets.unhealthy = u, Buckets.total = trees \<rparr>"
    and s: "HealthSnapshot.tree_count s = trees"
    by (simp_all add: d_def s_def synthesizeHealth_def Let_def trees_def h_def m_def st_def
        u_def w_def)
  have sum: "Buckets.healthy d + Buckets.moderate d + Buckets.stressed d + Buckets.unhealthy d
      = Buckets.total d"
    by (simp add: d)
  have nonneg: "0 \<le> Buckets.healthy d \<and> 0 \<le> Buckets.moderate d \<and> 0 \<le> Buckets.stressed d
        \<and> 0 \<le> Buckets.unhealthy d" if c: "well_configured P identity"
  proof -
    have trees: "0 \<le> trees" unfolding trees_def using c by (rule tree_count_of_nonneg)
    have b: "0 \<le> noise_bound P" using c by (simp add: well_configured_def)
    have r: "noise_bound P \<le> moderate_ratio P" "noise_bound P \<le> stressed_ratio P"
      "noise_bound P \<le> unhealthy_ratio P"
      "moderate_ratio P + stressed_ratio P + unhealthy_ratio P + 3 * noise_bound P \<le> 1"
      using c by (simp_all add: well_configured_def)
    note wb = bounded_noise_bounds [OF b, of "LocationIdentity.name identity" t, folded w_def]
    note sm = share_bounds [OF trees b r(1) wb, of 1, folded m_def]
    note ss = share_bounds [OF trees b r(2) wb, of 2, folded st_def]
    note su = share_bounds [OF trees b r(3) wb, of 3, folded u_def]
    have "(of_int (m + st + u) :: rat)
        \<le> of_int trees * (moderate_ratio P + noise_bound P)
          + of_int trees * (stressed_ratio P + noise_bound P)
          + of_int trees * (unhealthy_ratio P + noise_bound P)"
      using sm(2) ss(2) su(2) by simp
    also have "\<dots> = of_int trees
        * (moderate_ratio P + stressed_ratio P + unhealthy_ratio P + 3 * noise_bound P)"
      by (simp add: algebra_simps)
    also have "\<dots> \<le> of_int trees * 1"
      using trees r(4) by (intro mult_left_mono) simp_all
    finally have "(of_int (m + st + u) :: rat) \<le> of_int trees" by simp
    then have "m + st + u \<le> trees" by (simp only: of_int_le_iff)
    with sm(1) ss(1) su(1) show ?thesis by (simp add: d)
  qed
  from sum s nonneg show ?thesis by (simp add: d trees_def)
qed

theorem bucket_counts_add_up_witness:
  "(let P = \<lparr> derive_scale = (\<lambda>n. of_nat (length n)), base_population = 1000,
               tier_override = Map.empty, healthy_ratio = 11 / 20, moderate_ratio = 1 / 4,
               stressed_ratio = 3 / 20, unhealthy_ratio = 1 / 20,
               noise = (\<lambda>n t k. of_nat k / 100 - 1 / 50), noise_bound = 1 / 20,
               per_tree_capture = 1 / 80, co2_per_car = 23 / 5, baseline_share = 9 / 10 \<rparr>;
        identity = \<lparr> LocationIdentity.name = lit ''Nashik'', scale_factor = 6 \<rparr>;
        d = HealthSnapshot.tree_distribution (synthesizeHealth P identity 19000)
    in well_configured P identity
     \<and> Buckets.healthy d + Buckets.moderate d + Buckets.stressed d + Buckets.unhealthy d
         = Buckets.total d
     \<and> 0 \<le> Buckets.healthy d \<and> 0 \<le> Buckets.moderate d \<and> 0 \<le> Buckets.stressed d
     \<and> 0 \<le> Buckets.unhealthy d
     \<and> d = \<lparr> Buckets.healthy = 3300, Buckets.moderate = 1440, Buckets.stressed = 900,
             Buckets.unhealthy = 360, Buckets.total = 6000 \<rparr>)"
proof -
  let ?P = "\<lparr> derive_scale = (\<lambda>n :: jsstring. of_nat (length n)), base_population = 1000,
               tier_override = Map.empty, healthy_ratio = 11 / 20, moderate_ratio = 1 / 4,
               stressed_ratio = 3 / 20, unhealthy_ratio = 1 / 20,
               noise = (\<lambda>(n :: jsstring) (t :: Timestamp) k. of_nat k / 100 - 1 / 50),
               noise_bound = 1 / 20,
               per_tree_capture = 1 / 80, co2_per_car = 23 / 5, baseline_share = 9 / 10 \<rparr>"
  let ?identity = "\<lparr> LocationIdentity.name = lit ''Nashik'', scale_factor = 6 \<rparr>"
  have c: "well_configured ?P ?identity"
    by (simp add: well_configured_def)
  have v: "HealthSnapshot.tree_distribution (synthesizeHealth ?P ?identity 19000)
      = \<lparr> Buckets.healthy = 3300, Buckets.moderate = 1440, Buckets.stressed = 900,
          Buckets.unhealthy = 360, Buckets.total = 6000 \<rparr>"
    by (simp add: synthesizeHealth_def tree_count_of_def bounded_noise_def Let_def)
  from bucket_counts_add_up [of ?P ?identity 19000] c v show ?thesis
    unfolding Let_def by blast
qed

lemma getOrCreateLocation_found:
  assumes "scale_factors st n = Some f"
  shows "getOrCreateLocation P n st = (\<lparr> LocationIdentity.name = n, scale_factor = f \<rparr>, st)"
  using assms by (simp add: getOrCreateLocation_def)

lemma getOrCreateLocation_records:
  "scale_factors (snd (getOrCreateLocation P n st)) n
     = Some (scale_factor (fst (getOrCreateLocation P n st)))"
  by (simp add: getOrCreateLocation_def split: option.splits)

lemma getOrCreateLocation_name:
  "LocationIdentity.name (fst (getOrCreateLocation P n st)) = n"
  by (simp add: getOrCreateLocation_def split: option.splits)

lemma getOrCreateLocation_keeps:
  assumes "scale_factors st m = Some f"
  shows "scale_factors (snd (getOrCreateLocation P n st)) m = Some f"
  using assms by (auto simp add: getOrCreateLocation_def split: option.splits)

lemma serve_keeps:
  assumes "scale_factors st m = Some f"
  shows "scale_factors (serve P ns st) m = Some f"
  using assms
proof (induction ns arbitrary: st)
  case Nil
  then show ?case by (simp add: serve_def)
next
  case (Cons n ns)
  from Cons.prems have "scale_factors (snd (getOrCreateLocation P n st)) m = Some f"
    by (rule getOrCreateLocation_keeps)
  from Cons.IH [OF this] show ?case by (simp add: serve_def)
qed

text \<open>
  C2. A second call of \<^verbatim>\<open>getOrCreateLocation\<close> for a name, on the store the first call
  left, returns the identity of the first call and leaves the store as it is; so does a
  call after any number of requests for other or the same names. A snapshot synthesized
  from the later identity is the snapshot of the first, for every time, and the tree
  count of a snapshot depends on the identity alone: only the split into buckets, which
  the noise perturbs, varies with the time.
\<close>

theorem scale_factor_is_stable:
  fixes P :: Synthesizer and n :: jsstring and st :: Store
  defines "first \<equiv> getOrCreateLocation P n st"
  shows "getOrCreateLocation P n (snd first) = (fst first, snd first)
    \<and> (\<forall>ns. getOrCreateLocation P n (serve P ns (snd first))
            = (fst first, serve P ns (snd first)))
    \<and> (\<forall>ns t. synthesizeHealth P (fst (getOrCreateLocation P n (serve P ns (snd first)))) t
            = synthesizeHealth P (fst first) t)
    \<and> (\<forall>t. HealthSnapshot.tree_count (synthesizeHealth P (fst first) t)
            = tree_count_of P (fst first))"
proof -
  have known: "scale_factors (snd first) n = Some (scale_factor (fst first))"
    unfolding first_def by (rule getOrCreateLocation_records)
  have identity: "fst first = \<lparr> LocationIdentity.name = n, scale_factor = scale_factor (fst first) \<rparr>"
    using getOrCreateLocation_name [of P n st] by (simp add: first_def)
  have later: "getOrCreateLocation P n (serve P ns (snd first)) = (fst first, serve P ns (snd first))"
    for ns
  proof -
    have "scale_factors (serve P ns (snd first)) n = Some (scale_factor (fst first))"
      using known by (rule serve_keeps)
    then have "getOrCreateLocation P n (serve P ns (snd first))
        = (\<lparr> LocationIdentity.name = n, scale_factor = scale_factor (fst first) \<rparr>,
           serve P ns (snd first))"
      by (rule getOrCreateLocation_found)
    then show ?thesis using identity by simp
  qed
  from later [of "[]"] have again: "getOrCreateLocation P n (snd first) = (fst first, snd first)"
    by (simp add: serve_def)
  have trees: "HealthSnapshot.tree_count (synthesizeHealth P (fst first) t)
      = tree_count_of P (fst first)" for t
    by (simp add: synthesizeHealth_def Let_def)
  from again later trees show ?thesis by simp
qed

lemma those_map_Some: "those (map (\<lambda>x. Some (f x)) xs) = Some (map f xs)"
  by (induction xs) simp_all

lemma those_length: "those xs = Some ys \<Longrightarrow> length ys = length xs"
  by (induction xs arbitrary: ys) (auto split: option.splits)

lemma trend_data_lengths:
  assumes "trend_data_of toLocaleDateString body = Some chart"
    and "get body ''trends'' = Some trends" and "trend_items trends = Some items"
  shows "length (weeks chart) = length items"
    and "length (tree_counts chart) = length items"
    and "length (carbon_capture chart) = length items"
  using assms
  by (auto simp add: trend_data_of_def bind_eq_Some_conv dest!: those_length)

lemma trends_response_items:
  "get (trends_response isoformat series) ''trends''
     = Some (Arr (map (\<lambda>p.
         Obj [(lit ''date'', Str (isoformat (TrendPoint.date p))),
              (lit ''health_score'', Num (fl (TrendPoint.health_score p))),
              (lit ''carbon_sequestration'', Num (fl (TrendPoint.carbon_sequestration p)))])
         series))"
  by (simp add: trends_response_def)

lemma trend_data_of_trends_response:
  "trend_data_of toLocaleDateString (trends_response isoformat series)
     = Some \<lparr> weeks = map (\<lambda>p. toLocaleDateString (Str (isoformat (TrendPoint.date p)))) series,
              tree_counts =
                map (\<lambda>p. Math_round (js_mul (fl (TrendPoint.health_score p)) (Fin 1000))) series,
              carbon_capture =
                map (\<lambda>p. or_else (Num (fl (TrendPoint.carbon_sequestration p))) (Num (Fin 0)))
                  series \<rparr>"
proof -
  let ?item = "\<lambda>p. Obj [(lit ''date'', Str (isoformat (TrendPoint.date p))),
              (lit ''health_score'', Num (fl (TrendPoint.health_score p))),
              (lit ''carbon_sequestration'', Num (fl (TrendPoint.carbon_sequestration p)))]"
  have w: "week_of toLocaleDateString (?item p)
      = Some (toLocaleDateString (Str (isoformat (TrendPoint.date p))))" for p
    by (simp add: week_of_def)
  have t: "tree_count_of_item (?item p)
      = Some (Math_round (js_mul (fl (TrendPoint.health_score p)) (Fin 1000)))" for p
    by (simp add: tree_count_of_item_def js_times_def to_number_def lit_def)
  have c: "carbon_of_item (?item p)
      = Some (or_else (Num (fl (TrendPoint.carbon_sequestration p))) (Num (Fin 0)))" for p
    by (simp add: carbon_of_item_def lit_def)
  show ?thesis
    unfolding trend_data_of_def trends_response_items
    by (simp add: trend_items_def or_else_def comp_def w t c those_map_Some)
qed

lemma synthesizeTrend_length: "length (synthesizeTrend P identity windowDays now) = windowDays"
  by (simp add: synthesizeTrend_def Let_def)

lemma synthesizeTrend_dates:
  "map TrendPoint.date (synthesizeTrend P identity windowDays now)
     = map (\<lambda>i. now - int (windowDays - 1 - i)) [0..<windowDays]"
  by (simp add: synthesizeTrend_def Let_def comp_def)

lemma synthesizeTrend_sorted:
  "sorted (map TrendPoint.date (synthesizeTrend P identity windowDays now))"
  unfolding synthesizeTrend_dates
  by (auto simp add: sorted_map sorted_wrt_iff_nth_less)

lemma approach_last:
  assumes "0 < windowDays"
  shows "approach current baseline wobble windowDays (windowDays - Suc 0) = current"
  using assms by (simp add: approach_def)

text \<open>
  C5. A trend series for a window of \<open>windowDays\<close> days has that many points, their dates
  do not decrease, and for a window that is not empty the last point is dated today and
  carries the health score and the carbon capture of the current snapshot. The transform
  of \<^verbatim>\<open>fetchTrendData\<close> maps the items of the response one to one into \<^verbatim>\<open>weeks\<close>,
  \<^verbatim>\<open>tree_counts\<close> and \<^verbatim>\<open>carbon_capture\<close>, which keep the length of the series.
\<close>

theorem trend_series_covers_window:
  fixes P :: Synthesizer and identity :: LocationIdentity and windowDays :: nat
    and now :: Timestamp and toLocaleDateString :: "jsval \<Rightarrow> jsstring"
    and isoformat :: "Timestamp \<Rightarrow> jsstring"
  defines "series \<equiv> synthesizeTrend P identity windowDays now"
  defines "current \<equiv> synthesizeHealth P identity now"
  shows "length series = windowDays
    \<and> sorted (map TrendPoint.date series)
    \<and> (0 < windowDays \<longrightarrow>
        TrendPoint.date (last series) = now
        \<and> TrendPoint.health_score (last series) = HealthSnapshot.health_score current
        \<and> TrendPoint.carbon_sequestration (last series)
            = CarbonSnapshot.annual_capture_rate (synthesizeCarbon P current))
    \<and> (\<exists>chart.
          trend_data_of toLocaleDateString (trends_response isoformat series) = Some chart
          \<and> length (weeks chart) = windowDays
          \<and> length (tree_counts chart) = windowDays
          \<and> length (carbon_capture chart) = windowDays)"
proof -
  have len: "length series = windowDays"
    unfolding series_def by (rule synthesizeTrend_length)
  have srt: "sorted (map TrendPoint.date series)"
    unfolding series_def by (rule synthesizeTrend_sorted)
  have final: "TrendPoint.date (last series) = now
        \<and> TrendPoint.health_score (last series) = HealthSnapshot.health_score current
        \<and> TrendPoint.carbon_sequestration (last series)
            = CarbonSnapshot.annual_capture_rate (synthesizeCarbon P current)"
    if pos: "0 < windowDays"
  proof -
    have "[0..<windowDays] \<noteq> []" using pos by simp
    moreover have "last [0..<windowDays] = windowDays - 1" using pos by (cases windowDays) simp_all
    ultimately show ?thesis
      using pos
      by (simp add: series_def current_def synthesizeTrend_def Let_def last_map approach_last)
  qed
  have "\<exists>chart.
          trend_data_of toLocaleDateString (trends_response isoformat series) = Some chart
          \<and> length (weeks chart) = windowDays
          \<and> length (tree_counts chart) = windowDays
          \<and> length (carbon_capture chart) = windowDays"
    unfolding trend_data_of_trends_response by (simp add: len)
  with len srt final show ?thesis by blast
qed

theorem trend_series_covers_window_witness:
  "(let P = \<lparr> derive_scale = (\<lambda>n. of_nat (length n)), base_population = 1000,
               tier_override = Map.empty, healthy_ratio = 11 / 20, moderate_ratio = 1 / 4,
               stressed_ratio = 3 / 20, unhealthy_ratio = 1 / 20,
               noise = (\<lambda>n t k. of_nat k / 100 - 1 / 50), noise_bound = 1 / 20,
               per_tree_capture = 1 / 80, co2_per_car = 23 / 5, baseline_share = 9 / 10 \<rparr>;
        identity = \<lparr> LocationIdentity.name = lit ''Seattle'', scale_factor = 7 \<rparr>;
        series = synthesizeTrend P identity 30 19000;
        current = synthesizeHealth P identity 19000
    in (0 :: nat) < 30
     \<and> length series = 30
     \<and> TrendPoint.date (last series) = 19000
     \<and> TrendPoint.health_score (last series) = HealthSnapshot.health_score current
     \<and> TrendPoint.carbon_sequestration (last series)
         = CarbonSnapshot.annual_capture_rate (synthesizeCarbon P current)
     \<and> (\<exists>chart. trend_data_of (\<lambda>d. []) (trends_response (\<lambda>t. []) series) = Some chart
           \<and> length (weeks chart) = 30 \<and> length (tree_counts chart) = 30
           \<and> length (carbon_capture chart) = 30))"
proof -
  let ?P = "\<lparr> derive_scale = (\<lambda>n :: jsstring. of_nat (length n)), base_population = 1000,
               tier_override = Map.empty, healthy_ratio = 11 / 20, moderate_ratio = 1 / 4,
               stressed_ratio = 3 / 20, unhealthy_ratio = 1 / 20,
               noise = (\<lambda>(n :: jsstring) (t :: Timestamp) k. of_nat k / 100 - 1 / 50),
               noise_bound = 1 / 20,
               per_tree_capture = 1 / 80, co2_per_car = 23 / 5, baseline_share = 9 / 10 \<rparr>"
  let ?identity = "\<lparr> LocationIdentity.name = lit ''Seattle'', scale_factor = 7 \<rparr>"
  have pos: "(0 :: nat) < 30" by simp
  from pos trend_series_covers_window [where P = ?P and identity = ?identity
      and windowDays = 30 and now = 19000 and toLocaleDateString = "\<lambda>d. []"
      and isoformat = "\<lambda>t. []"]
  show ?thesis unfolding Let_def by blast
qed

subsection \<open>Rounding to a double\<close>

lemma bitlen_pos: "0 < p \<Longrightarrow> 1 \<le> bitlen p"
  using bitlen_eq_zero_iff [of p] bitlen_nonneg [of p] by linarith

lemma pow2_bitlen_le:
  assumes "0 < (p::int)"
  shows "(2::rat) powi (bitlen p - 1) \<le> of_int p"
proof -
  have "(2::rat) powi (bitlen p - 1) = of_int (2 ^ nat (bitlen p - 1))"
    using bitlen_pos [OF assms] by (simp add: power_int_nonneg_exp)
  also have "\<dots> \<le> of_int p"
    using bitlen_bounds [OF assms] by (simp only: of_int_le_iff)
  finally show ?thesis .
qed

lemma pow2_bitlen_gt:
  assumes "0 < (p::int)"
  shows "of_int p < (2::rat) powi bitlen p"
proof -
  have "of_int p < (of_int (2 ^ nat (bitlen p)) :: rat)"
    using bitlen_bounds [OF assms] by (simp only: of_int_less_iff)
  also have "\<dots> = 2 powi bitlen p"
    using bitlen_pos [OF assms] by (simp add: power_int_nonneg_exp)
  finally show ?thesis .
qed

lemma pow2_add: "(2::rat) powi (m + n) = 2 powi m * 2 powi n"
  by (simp add: power_int_add)

lemma pow2_pos: "0 < (2::rat) powi n"
  by simp

lemma pow2_mono: "m \<le> n \<Longrightarrow> (2::rat) powi m \<le> 2 powi n"
  by (rule power_int_increasing) simp_all

lemma pow2_less_imp: "(2::rat) powi m < 2 powi n \<Longrightarrow> m < n"
  using pow2_mono [of n m] by (cases "m < n") auto

lemma ilog2_bounds:
  assumes "0 < a"
  shows "2 powi (ilog2 a) \<le> a" and "a < 2 powi (ilog2 a + 1)"
proof -
  obtain p q where pq: "quotient_of a = (p, q)" by (cases "quotient_of a")
  have q: "0 < q" using pq by (rule quotient_of_denom_pos)
  have a: "a = of_int p / of_int q" using pq by (rule quotient_of_div)
  have p: "0 < p" using assms q unfolding a by (simp add: zero_less_divide_iff)
  define d where "d = bitlen p - bitlen q"
  have qr: "0 < (of_int q :: rat)" using q by simp
  have up: "a < 2 powi (d + 1)"
  proof -
    have "of_int p < (2::rat) powi bitlen p" by (rule pow2_bitlen_gt [OF p])
    also have "\<dots> = 2 powi (d + 1) * 2 powi (bitlen q - 1)"
      unfolding pow2_add [symmetric] d_def by simp
    also have "\<dots> \<le> 2 powi (d + 1) * of_int q"
      by (rule mult_left_mono [OF pow2_bitlen_le [OF q]]) simp
    finally show ?thesis unfolding a using qr by (simp add: pos_divide_less_eq)
  qed
  have lo: "2 powi (d - 1) < a"
  proof -
    have "2 powi (d - 1) * of_int q < (2::rat) powi (d - 1) * 2 powi bitlen q"
      by (rule mult_strict_left_mono [OF pow2_bitlen_gt [OF q]]) simp
    also have "\<dots> = 2 powi (bitlen p - 1)"
      unfolding pow2_add [symmetric] d_def by simp
    also have "\<dots> \<le> of_int p" by (rule pow2_bitlen_le [OF p])
    finally show ?thesis unfolding a using qr by (simp add: pos_less_divide_eq)
  qed
  have il: "ilog2 a = (if 2 powi d \<le> a then d else d - 1)"
    by (simp add: ilog2_def Let_def pq d_def)
  show "2 powi (ilog2 a) \<le> a"
    using lo by (simp add: il)
  show "a < 2 powi (ilog2 a + 1)"
    using up by (simp add: il not_le)
qed

lemma ilog2_unique:
  assumes "2 powi e \<le> a" and "a < 2 powi (e + 1)"
  shows "ilog2 a = e"
proof -
  have a: "0 < a" using assms(1) pow2_pos [of e] by linarith
  note b = ilog2_bounds [OF a]
  have "2 powi e < (2::rat) powi (ilog2 a + 1)" using assms(1) b(2) by linarith
  then have 1: "e < ilog2 a + 1" by (rule pow2_less_imp)
  have "2 powi (ilog2 a) < (2::rat) powi (e + 1)" using assms(2) b(1) by linarith
  then have 2: "ilog2 a < e + 1" by (rule pow2_less_imp)
  from 1 2 show ?thesis by linarith
qed

lemma round_half_even_error: "\<bar>of_int (round_half_even x) - x\<bar> \<le> 1 / 2"
proof -
  have "of_int \<lfloor>x\<rfloor> \<le> x" "x < of_int \<lfloor>x\<rfloor> + 1" by linarith+
  then show ?thesis by (simp add: round_half_even_def Let_def)
qed

lemma round_half_even_nearest:
  assumes "\<bar>of_int m - x\<bar> < 1 / 2"
  shows "round_half_even x = m"
proof -
  have "\<bar>of_int (round_half_even x) - x\<bar> \<le> 1 / 2" by (rule round_half_even_error)
  with assms have "\<bar>(of_int (round_half_even x) :: rat) - of_int m\<bar> < 1" by linarith
  then have "\<bar>round_half_even x - m\<bar> < 1"
    by (metis of_int_diff of_int_abs of_int_less_iff of_int_1)
  then show ?thesis by linarith
qed

lemma round_half_even_of_int [simp]: "round_half_even (of_int m) = m"
  by (rule round_half_even_nearest) simp

lemma round_half_even_nonneg: "0 \<le> x \<Longrightarrow> 0 \<le> round_half_even x"
  by (simp add: round_half_even_def Let_def)

text \<open>The rounding of a positive rational: the two outcomes of the overflow test.\<close>

lemma fl_pos_Fin:
  assumes "0 < x"
    and "of_int (round_half_even (x / 2 powi max (ilog2 x - 52) (- 1074)))
           * 2 powi max (ilog2 x - 52) (- 1074) = (r::rat)"
    and "r < 2 powi 1024"
  shows "fl x = Fin r"
  using assms by (simp add: fl_def Let_def not_le)

lemma fl_pos_PInf:
  assumes "0 < x"
    and "of_int (round_half_even (x / 2 powi max (ilog2 x - 52) (- 1074)))
           * 2 powi max (ilog2 x - 52) (- 1074) = (r::rat)"
    and "2 powi 1024 \<le> r"
  shows "fl x = PInf"
  using assms by (simp add: fl_def Let_def)

lemma scaled_round_error:
  "\<bar>of_int (round_half_even (a / 2 powi q)) * 2 powi q - a\<bar> \<le> 2 powi (q - 1)"
proof -
  define P :: rat where "P = 2 powi q"
  define m :: rat where "m = of_int (round_half_even (a / P))"
  have p: "0 < P" by (simp add: P_def)
  have "m * P - a = (m - a / P) * P"
    using p by (simp add: field_simps)
  then have "\<bar>m * P - a\<bar> = \<bar>m - a / P\<bar> * P"
    using p by (simp add: abs_mult)
  also have "\<dots> \<le> 1 / 2 * P"
    unfolding m_def using p by (intro mult_right_mono round_half_even_error) simp
  also have "\<dots> = 2 powi (q - 1)"
    using pow2_add [of "q - 1" 1] by (simp add: P_def)
  finally show ?thesis by (simp add: m_def P_def)
qed

lemma pow2_1024: "(2::rat) powi 1023 + 2 powi 970 < 2 powi 1024"
proof -
  have "(2::rat) powi 970 < 2 powi 1023" by (rule power_int_strict_increasing) simp_all
  moreover have "(2::rat) powi 1024 = 2 powi 1023 + 2 powi 1023"
    using pow2_add [of 1023 1] by simp
  ultimately show ?thesis by linarith
qed

lemma fl_pos_error:
  assumes "0 < x" and "x \<le> 2 powi 1023"
  shows "\<exists>y. fl x = Fin y \<and> 0 \<le> y \<and> \<bar>y - x\<bar> \<le> max (x / 2 ^ 53) (2 powi (- 1075))"
proof -
  define e where "e = ilog2 x"
  define q where "q = max (e - 52) (- 1074)"
  define r :: rat where "r = of_int (round_half_even (x / 2 powi q)) * 2 powi q"
  have lo: "2 powi e \<le> x" and hi: "x < 2 powi (e + 1)"
    unfolding e_def by (rule ilog2_bounds [OF assms(1)])+
  have err: "\<bar>r - x\<bar> \<le> 2 powi (q - 1)"
    unfolding r_def by (rule scaled_round_error)
  have "2 powi e < (2::rat) powi 1024"
    using lo assms(2) pow2_1024 pow2_pos [of 970] by linarith
  then have e: "e < 1024" by (rule pow2_less_imp)
  have "(2::rat) powi (q - 1) \<le> 2 powi 970"
    by (rule pow2_mono) (use e in \<open>simp add: q_def\<close>)
  with err assms(2) pow2_1024 have small: "r < 2 powi 1024" by linarith
  have nonneg: "0 \<le> r"
    unfolding r_def using assms(1) by (simp add: round_half_even_nonneg)
  have bound: "(2::rat) powi (q - 1) \<le> max (x / 2 ^ 53) (2 powi (- 1075))"
  proof (cases "- 1074 \<le> e - 52")
    case True
    then have "q - 1 = e + - 53" by (simp add: q_def)
    then have "(2::rat) powi (q - 1) = 2 powi e * 2 powi (- 53)"
      by (simp only: pow2_add)
    also have "\<dots> = 2 powi e / 2 ^ 53"
      by (simp add: power_int_minus_divide)
    also have "\<dots> \<le> x / 2 ^ 53"
      using lo by (simp add: divide_right_mono)
    finally show ?thesis by (simp add: le_max_iff_disj)
  next
    case False
    then have "q - 1 = - 1075" by (simp add: q_def)
    then show ?thesis by (simp only: le_max_iff_disj) simp
  qed
  have "fl x = Fin r"
    using assms(1) _ small by (rule fl_pos_Fin) (simp only: r_def q_def e_def)
  with nonneg err bound show ?thesis by (intro exI [of _ r]) auto
qed

lemma fl_minus: "fl (- x) = (case fl x of Fin y \<Rightarrow> Fin (- y) | PInf \<Rightarrow> NInf | NInf \<Rightarrow> PInf | NaN \<Rightarrow> NaN)"
  by (cases "x = 0") (auto simp add: fl_def Let_def sgn_if)

lemma fl_error:
  assumes "\<bar>x\<bar> \<le> 2 powi 1023"
  shows "\<exists>y. fl x = Fin y \<and> (0 \<le> x \<longrightarrow> 0 \<le> y) \<and> \<bar>y - x\<bar> \<le> max (\<bar>x\<bar> / 2 ^ 53) (2 powi (- 1075))"
proof -
  consider "x = 0" | "0 < x" | "x < 0" by linarith
  then show ?thesis
  proof cases
    case 1
    then show ?thesis by (simp add: fl_def)
  next
    case 2
    with assms fl_pos_error [of x] show ?thesis by auto
  next
    case 3
    with assms fl_pos_error [of "- x"] obtain y where
      y: "fl (- x) = Fin y" "\<bar>y - - x\<bar> \<le> max (- x / 2 ^ 53) (2 powi (- 1075))" by auto
    have "fl x = Fin (- y)" using fl_minus [of "- x"] y(1) by simp
    moreover have "\<bar>- y - x\<bar> = \<bar>y - - x\<bar>" by linarith
    ultimately show ?thesis using y(2) 3 by (intro exI [of _ "- y"]) simp
  qed
qed

lemma fl_eqI:
  assumes "2 powi e \<le> x" and "x < 2 powi (e + 1)" and "- 1022 \<le> e"
    and "\<bar>of_int m - x / 2 powi (e - 52)\<bar> < 1 / 2"
    and "of_int m * 2 powi (e - 52) < (2::rat) powi 1024"
  shows "fl x = Fin (of_int m * 2 powi (e - 52))"
proof -
  have x: "0 < x" using assms(1) pow2_pos [of e] by linarith
  have e: "ilog2 x = e" using assms(1,2) by (rule ilog2_unique)
  have q: "max (e - 52) (- 1074) = e - 52" using assms(3) by simp
  have m: "round_half_even (x / 2 powi (e - 52)) = m"
    using assms(4) by (rule round_half_even_nearest)
  show ?thesis
    using x _ assms(5) by (rule fl_pos_Fin) (simp only: e q m)
qed

lemma fl_overflow:
  assumes "2 powi 1024 \<le> x"
  shows "fl x = PInf"
proof -
  have x: "0 < x" using assms pow2_pos [of 1024] by linarith
  define e where "e = ilog2 x"
  define m where "m = round_half_even (x / 2 powi (e - 52))"
  have lo: "2 powi e \<le> x" and hi: "x < 2 powi (e + 1)"
    unfolding e_def by (rule ilog2_bounds [OF x])+
  have "(2::rat) powi 1024 < 2 powi (e + 1)" using assms hi by linarith
  then have e: "1024 \<le> e" using pow2_less_imp [of 1024 "e + 1"] by simp
  then have q: "max (e - 52) (- 1074) = e - 52" by simp
  have split: "(2::rat) powi e = 2 powi 52 * 2 powi (e - 52)"
    unfolding pow2_add [symmetric] by simp
  have "(2::rat) powi 52 \<le> x / 2 powi (e - 52)"
    using lo unfolding split by (simp add: pos_le_divide_eq)
  moreover have "\<bar>of_int m - x / 2 powi (e - 52)\<bar> \<le> 1 / 2"
    unfolding m_def by (rule round_half_even_error)
  ultimately have "(2::rat) powi 52 - 1 < of_int m" by linarith
  then have "(of_int (2 ^ 52 - 1) :: rat) < of_int m" by simp
  then have "2 ^ 52 - 1 < m" by (simp only: of_int_less_iff)
  then have "2 ^ 52 \<le> m" by linarith
  then have "(of_int (2 ^ 52) :: rat) \<le> of_int m" by (simp only: of_int_le_iff)
  then have "(2::rat) powi 52 \<le> of_int m" by simp
  then have "2 powi 52 * 2 powi (e - 52) \<le> of_int m * (2::rat) powi (e - 52)"
    by (rule mult_right_mono) simp
  then have big: "2 powi 1024 \<le> of_int m * (2::rat) powi (e - 52)"
    using pow2_mono [OF e] unfolding split by linarith
  show ?thesis
    using x _ big by (rule fl_pos_PInf) (simp only: e_def [symmetric] q m_def)
qed

lemma fl_exact_pos:
  assumes "0 < m" and "m < 2 ^ 53" and "- 1074 \<le> q"
    and "of_int m * 2 powi q < (2::rat) powi 1024"
  shows "fl (of_int m * 2 powi q) = Fin (of_int m * 2 powi q)"
proof -
  define x :: rat where "x = of_int m * 2 powi q"
  have x: "0 < x" using assms(1) by (simp add: x_def)
  define e where "e = ilog2 x"
  define q' where "q' = max (e - 52) (- 1074)"
  have lo: "2 powi e \<le> x"
    unfolding e_def by (rule ilog2_bounds [OF x])
  have "(of_int m :: rat) < of_int (2 ^ 53)" using assms(2) by (simp only: of_int_less_iff)
  then have "(of_int m :: rat) < 2 powi 53" by simp
  then have "x < 2 powi 53 * 2 powi q"
    unfolding x_def by (rule mult_strict_right_mono) simp
  then have "2 powi e < (2::rat) powi (53 + q)"
    using lo unfolding pow2_add by linarith
  then have "e < 53 + q" by (rule pow2_less_imp)
  then have le: "q' \<le> q" using assms(3) by (simp add: q'_def)
  have "(2::rat) powi q = 2 powi (q - q') * 2 powi q'"
    unfolding pow2_add [symmetric] by simp
  also have "(2::rat) powi (q - q') = of_int (2 ^ nat (q - q'))"
    using le by (simp add: power_int_nonneg_exp)
  finally have split: "(2::rat) powi q = of_int (2 ^ nat (q - q')) * 2 powi q'" .
  have "x / 2 powi q' = of_int (m * 2 ^ nat (q - q'))"
    unfolding x_def split by simp
  then have "round_half_even (x / 2 powi q') = m * 2 ^ nat (q - q')"
    by (simp only: round_half_even_of_int)
  then have "of_int (round_half_even (x / 2 powi q')) * 2 powi q' = x"
    by (simp add: x_def split)
  then have "fl x = Fin x"
    using x assms(4) unfolding q'_def e_def x_def [symmetric] by (intro fl_pos_Fin)
  then show ?thesis by (simp only: x_def)
qed


subsection \<open>Reading a response\<close>

lemma get_Obj: "get (Obj ps) k = Some (case map_of ps (lit k) of None \<Rightarrow> Undefined | Some v \<Rightarrow> v)"
  by simp

lemma get_None_iff: "get v k = None \<longleftrightarrow> v = Undefined \<or> v = Null"
  by (cases v) simp_all

lemma get_other_name: "get v k = Some x \<Longrightarrow> \<exists>y. get v k' = Some y"
  by (cases v) simp_all

lemma or_else_Num [simp]: "or_else (Num (Fin x)) (Num (Fin 0)) = Num (Fin x)"
  by (simp add: or_else_def)

lemma to_number_Num [simp]: "to_number (Num n) = Some n"
  by (simp add: to_number_def)

lemma js_divide_Num [simp]: "js_divide (Num x) (Num y) = Some (js_div x y)"
  by (simp add: js_divide_def)

lemma js_times_Num [simp]: "js_times (Num x) (Num y) = Some (js_mul x y)"
  by (simp add: js_times_def)

lemma percentage_Num:
  "percentage (Num (Fin b)) (Num d) = Some (Math_round (js_mul (js_div (Fin b) d) (Fin 100)))"
  by (simp add: percentage_def)

lemma percentage_Undefined:
  "percentage Undefined (Num d) = Some (Math_round (js_mul (js_div (Fin 0) d) (Fin 100)))"
  by (simp add: percentage_def or_else_def)

subsection \<open>Percentages of a distribution\<close>

lemma rounding_unit:
  assumes "\<bar>a\<bar> \<le> c" and "1 \<le> c"
  shows "max (\<bar>a\<bar> / 2 ^ 53) (2 powi (- 1075)) \<le> c / (2 ^ 53 :: rat)"
proof -
  have "(2::rat) powi (- 1075) \<le> 2 powi (- 53)" by (rule pow2_mono) simp
  also have "\<dots> = 1 / 2 ^ 53" by (simp add: power_int_minus_divide)
  also have "\<dots> \<le> c / 2 ^ 53" using assms(2) by (simp add: divide_right_mono)
  finally have "(2::rat) powi (- 1075) \<le> c / 2 ^ 53" .
  moreover have "\<bar>a\<bar> / 2 ^ 53 \<le> c / 2 ^ 53" using assms(1) by (simp add: divide_right_mono)
  ultimately show ?thesis by simp
qed

lemma small_le_pow2_1023: "x \<le> 2 ^ 64 \<Longrightarrow> x \<le> (2::rat) powi 1023"
proof -
  assume "x \<le> 2 ^ 64"
  moreover have "(2::rat) powi 64 \<le> 2 powi 1023" by (rule pow2_mono) simp
  ultimately show ?thesis by simp
qed

lemma Math_round_error: "\<bar>of_int \<lfloor>w + 1 / 2\<rfloor> - w\<bar> \<le> (1 / 2 :: rat)"
  by linarith

lemma percentage_error:
  assumes "0 \<le> b" and "b \<le> t" and "0 < t"
  shows "\<exists>k. Math_round (js_mul (js_div (Fin b) (Fin t)) (Fin 100)) = Fin (of_int k)
           \<and> \<bar>of_int k - 100 * b / t\<bar> \<le> 5 / 8"
proof -
  define x where "x = b / t"
  have x: "0 \<le> x" "x \<le> 1" using assms by (simp_all add: x_def)
  then have "\<bar>x\<bar> \<le> 2 powi 1023" by (intro small_le_pow2_1023) simp
  from fl_error [OF this] obtain y where
    y: "fl x = Fin y" "0 \<le> y" "\<bar>y - x\<bar> \<le> max (\<bar>x\<bar> / 2 ^ 53) (2 powi (- 1075))"
    using x(1) by auto
  have "max (\<bar>x\<bar> / 2 ^ 53) (2 powi (- 1075)) \<le> 1 / 2 ^ 53"
    using x by (intro rounding_unit) simp_all
  moreover have "1 / 2 ^ 53 \<le> (1 / 1600 :: rat)" by simp
  ultimately have yx: "\<bar>y - x\<bar> \<le> 1 / 1600" using y(3) by linarith
  then have y2: "\<bar>y * 100\<bar> \<le> 200" using x y(2) by linarith
  then have "\<bar>y * 100\<bar> \<le> 2 powi 1023" by (intro small_le_pow2_1023) simp
  from fl_error [OF this] obtain w where
    w: "fl (y * 100) = Fin w" "\<bar>w - y * 100\<bar> \<le> max (\<bar>y * 100\<bar> / 2 ^ 53) (2 powi (- 1075))"
    by auto
  have "max (\<bar>y * 100\<bar> / 2 ^ 53) (2 powi (- 1075)) \<le> 200 / 2 ^ 53"
    using y2 by (intro rounding_unit) simp_all
  moreover have "200 / 2 ^ 53 \<le> (1 / 16 :: rat)" by simp
  ultimately have wy: "\<bar>w - y * 100\<bar> \<le> 1 / 16" using w(2) by linarith
  define k where "k = \<lfloor>w + 1 / 2\<rfloor>"
  have kw: "\<bar>of_int k - w\<bar> \<le> 1 / 2" unfolding k_def by (rule Math_round_error)
  have "100 * b / t = x * 100" by (simp add: x_def)
  with yx wy kw have "\<bar>of_int k - 100 * b / t\<bar> \<le> 5 / 8" by linarith
  moreover have "Math_round (js_mul (js_div (Fin b) (Fin t)) (Fin 100)) = Fin (of_int k)"
    using assms(3) y(1) w(1) by (simp add: x_def k_def)
  ultimately show ?thesis by blast
qed

lemma floor_half: "\<lfloor>1 / 2 :: rat\<rfloor> = 0"
  by (rule floor_unique) simp_all

lemma percentages_near_100:
  fixes h m s u :: rat
  assumes "0 \<le> h" and "0 \<le> m" and "0 \<le> s" and "0 \<le> u" and "0 < h + m + s + u"
  defines "t \<equiv> h + m + s + u"
  shows "\<exists>a b c d :: int.
      Math_round (js_mul (js_div (Fin h) (Fin t)) (Fin 100)) = Fin (of_int a)
    \<and> Math_round (js_mul (js_div (Fin m) (Fin t)) (Fin 100)) = Fin (of_int b)
    \<and> Math_round (js_mul (js_div (Fin s) (Fin t)) (Fin 100)) = Fin (of_int c)
    \<and> Math_round (js_mul (js_div (Fin u) (Fin t)) (Fin 100)) = Fin (of_int d)
    \<and> \<bar>of_int a - 100 * h / t\<bar> \<le> 5 / 8 \<and> \<bar>of_int b - 100 * m / t\<bar> \<le> 5 / 8
    \<and> \<bar>of_int c - 100 * s / t\<bar> \<le> 5 / 8 \<and> \<bar>of_int d - 100 * u / t\<bar> \<le> 5 / 8
    \<and> 98 \<le> a + b + c + d \<and> a + b + c + d \<le> 102"
proof -
  have t: "0 < t" "h \<le> t" "m \<le> t" "s \<le> t" "u \<le> t"
    using assms(1-5) by (simp_all add: t_def)
  from percentage_error [OF assms(1) t(2) t(1)] obtain a where
    a: "Math_round (js_mul (js_div (Fin h) (Fin t)) (Fin 100)) = Fin (of_int a)"
      "\<bar>of_int a - 100 * h / t\<bar> \<le> 5 / 8"
    by blast
  from percentage_error [OF assms(2) t(3) t(1)] obtain b where
    b: "Math_round (js_mul (js_div (Fin m) (Fin t)) (Fin 100)) = Fin (of_int b)"
      "\<bar>of_int b - 100 * m / t\<bar> \<le> 5 / 8"
    by blast
  from percentage_error [OF assms(3) t(4) t(1)] obtain c where
    c: "Math_round (js_mul (js_div (Fin s) (Fin t)) (Fin 100)) = Fin (of_int c)"
      "\<bar>of_int c - 100 * s / t\<bar> \<le> 5 / 8"
    by blast
  from percentage_error [OF assms(4) t(5) t(1)] obtain d where
    d: "Math_round (js_mul (js_div (Fin u) (Fin t)) (Fin 100)) = Fin (of_int d)"
      "\<bar>of_int d - 100 * u / t\<bar> \<le> 5 / 8"
    by blast
  have "100 * h / t + 100 * m / t + 100 * s / t + 100 * u / t = 100 * (h + m + s + u) / t"
    by (simp add: add_divide_distrib ring_distribs)
  also have "\<dots> = 100 * t / t" by (simp only: t_def)
  finally have "100 * h / t + 100 * m / t + 100 * s / t + 100 * u / t = 100"
    using t(1) by simp
  with a(2) b(2) c(2) d(2)
  have "(of_int a + of_int b + of_int c + of_int d :: rat) < 103"
    and "(97 :: rat) < of_int a + of_int b + of_int c + of_int d"
    by linarith+
  then have "(of_int (a + b + c + d) :: rat) < of_int 103"
    and "(of_int 97 :: rat) < of_int (a + b + c + d)"
    by simp_all
  then have "a + b + c + d < 103" "97 < a + b + c + d"
    by (simp_all only: of_int_less_iff)
  then have "98 \<le> a + b + c + d" "a + b + c + d \<le> 102" by simp_all
  with a b c d show ?thesis by blast
qed

lemma health_distribution_of_numbers:
  assumes "dist_of body = Some distribution"
    and "get distribution ''healthy'' = Some (Num (Fin h))"
    and "get distribution ''moderate'' = Some (Num (Fin m))"
    and "get distribution ''stressed'' = Some (Num (Fin s))"
    and "get distribution ''unhealthy'' = Some (Num (Fin u))"
    and "get distribution ''total'' = Some (Num (Fin t))" and "t \<noteq> 0"
  shows "health_distribution_of body = Some
      \<lparr> HealthDistribution.healthy = Num (Fin h), HealthDistribution.moderate = Num (Fin m),
        HealthDistribution.stressed = Num (Fin s), HealthDistribution.unhealthy = Num (Fin u),
        HealthDistribution.total = Num (Fin t),
        HealthDistribution.healthy_percentage =
          Math_round (js_mul (js_div (Fin h) (Fin t)) (Fin 100)),
        HealthDistribution.moderate_percentage =
          Math_round (js_mul (js_div (Fin m) (Fin t)) (Fin 100)),
        HealthDistribution.stressed_percentage =
          Math_round (js_mul (js_div (Fin s) (Fin t)) (Fin 100)),
        HealthDistribution.unhealthy_percentage =
          Math_round (js_mul (js_div (Fin u) (Fin t)) (Fin 100)) \<rparr>"
proof -
  have "or_else (Num (Fin t)) (Num (Fin 1)) = Num (Fin t)"
    using assms(7) by (simp add: or_else_def)
  then show ?thesis
    using assms(1-6) by (simp add: health_distribution_of_def percentage_Num)
qed

lemma ndvi_data_of_numbers:
  assumes "dist_of body = Some distribution"
    and "get distribution ''healthy'' = Some (Num (Fin h))"
    and "get distribution ''moderate'' = Some (Num (Fin m))"
    and "get distribution ''stressed'' = Some (Num (Fin s))"
    and "get distribution ''unhealthy'' = Some (Num (Fin u))"
    and "get distribution ''total'' = Some (Num (Fin t))" and "t \<noteq> 0"
  shows "\<exists>score. get body ''health_score'' = Some score \<and> ndvi_data_of body = Some
      \<lparr> current_average = or_else score (Num (Fin 0)),
        NDVIData.healthy_percentage =
          Math_round (js_mul (js_div (Fin h) (Fin t)) (Fin 100)),
        NDVIData.moderate_percentage =
          Math_round (js_mul (js_div (Fin m) (Fin t)) (Fin 100)),
        NDVIData.stressed_percentage =
          Math_round (js_mul (js_div (Fin s) (Fin t)) (Fin 100)),
        NDVIData.unhealthy_percentage =
          Math_round (js_mul (js_div (Fin u) (Fin t)) (Fin 100)) \<rparr>"
proof -
  from assms(1) obtain td where "get body ''tree_distribution'' = Some td"
    by (auto simp add: dist_of_def)
  from get_other_name [OF this] obtain score where score: "get body ''health_score'' = Some score"
    by blast
  have "or_else (Num (Fin t)) (Num (Fin 1)) = Num (Fin t)"
    using assms(7) by (simp add: or_else_def)
  then have "ndvi_data_of body = Some
      \<lparr> current_average = or_else score (Num (Fin 0)),
        NDVIData.healthy_percentage =
          Math_round (js_mul (js_div (Fin h) (Fin t)) (Fin 100)),
        NDVIData.moderate_percentage =
          Math_round (js_mul (js_div (Fin m) (Fin t)) (Fin 100)),
        NDVIData.stressed_percentage =
          Math_round (js_mul (js_div (Fin s) (Fin t)) (Fin 100)),
        NDVIData.unhealthy_percentage =
          Math_round (js_mul (js_div (Fin u) (Fin t)) (Fin 100)) \<rparr>"
    using assms(1-6) score by (simp add: ndvi_data_of_def percentage_Num)
  with score show ?thesis by blast
qed

text \<open>
  C3 (as amended). When the four buckets of a response are non-negative numbers and its
  total is their sum, a positive number, \<^verbatim>\<open>fetchHealthDistribution\<close> returns four
  percentages that are whole numbers whose sum lies between 98 and 102: each is the
  separately rounded \<^verbatim>\<open>Math.round(bucket / total * 100)\<close>, off from the exact percentage
  by at most a half plus the error of the two floating-point operations. \<^verbatim>\<open>fetchNDVIData\<close>
  returns the same four percentages.
\<close>

theorem percentages_sum_near_100:
  fixes h m s u :: rat and body distribution :: jsval
  assumes "0 \<le> h" and "0 \<le> m" and "0 \<le> s" and "0 \<le> u" and "0 < h + m + s + u"
    and "dist_of body = Some distribution"
    and "get distribution ''healthy'' = Some (Num (Fin h))"
    and "get distribution ''moderate'' = Some (Num (Fin m))"
    and "get distribution ''stressed'' = Some (Num (Fin s))"
    and "get distribution ''unhealthy'' = Some (Num (Fin u))"
    and "get distribution ''total'' = Some (Num (Fin (h + m + s + u)))"
  shows "\<exists>r n. \<exists>a b c d :: int.
      health_distribution_of body = Some r \<and> ndvi_data_of body = Some n
    \<and> HealthDistribution.healthy_percentage r
        = Math_round (js_mul (js_div (Fin h) (Fin (h + m + s + u))) (Fin 100))
    \<and> HealthDistribution.moderate_percentage r
        = Math_round (js_mul (js_div (Fin m) (Fin (h + m + s + u))) (Fin 100))
    \<and> HealthDistribution.stressed_percentage r
        = Math_round (js_mul (js_div (Fin s) (Fin (h + m + s + u))) (Fin 100))
    \<and> HealthDistribution.unhealthy_percentage r
        = Math_round (js_mul (js_div (Fin u) (Fin (h + m + s + u))) (Fin 100))
    \<and> HealthDistribution.healthy_percentage r = Fin (of_int a)
    \<and> HealthDistribution.moderate_percentage r = Fin (of_int b)
    \<and> HealthDistribution.stressed_percentage r = Fin (of_int c)
    \<and> HealthDistribution.unhealthy_percentage r = Fin (of_int d)
    \<and> \<bar>of_int a - 100 * h / (h + m + s + u)\<bar> \<le> 5 / 8
    \<and> \<bar>of_int b - 100 * m / (h + m + s + u)\<bar> \<le> 5 / 8
    \<and> \<bar>of_int c - 100 * s / (h + m + s + u)\<bar> \<le> 5 / 8
    \<and> \<bar>of_int d - 100 * u / (h + m + s + u)\<bar> \<le> 5 / 8
    \<and> 98 \<le> a + b + c + d \<and> a + b + c + d \<le> 102
    \<and> NDVIData.healthy_percentage n = HealthDistribution.healthy_percentage r
    \<and> NDVIData.moderate_percentage n = HealthDistribution.moderate_percentage r
    \<and> NDVIData.stressed_percentage n = HealthDistribution.stressed_percentage r
    \<and> NDVIData.unhealthy_percentage n = HealthDistribution.unhealthy_percentage r"
proof -
  have nz: "h + m + s + u \<noteq> 0" using assms(5) by simp
  note r = health_distribution_of_numbers [OF assms(6-11) nz]
  from ndvi_data_of_numbers [OF assms(6-11) nz] obtain score where
    n: "ndvi_data_of body = Some
      \<lparr> current_average = or_else score (Num (Fin 0)),
        NDVIData.healthy_percentage =
          Math_round (js_mul (js_div (Fin h) (Fin (h + m + s + u))) (Fin 100)),
        NDVIData.moderate_percentage =
          Math_round (js_mul (js_div (Fin m) (Fin (h + m + s + u))) (Fin 100)),
        NDVIData.stressed_percentage =
          Math_round (js_mul (js_div (Fin s) (Fin (h + m + s + u))) (Fin 100)),
        NDVIData.unhealthy_percentage =
          Math_round (js_mul (js_div (Fin u) (Fin (h + m + s + u))) (Fin 100)) \<rparr>"
    by blast
  let ?R = "\<lparr> HealthDistribution.healthy = Num (Fin h), HealthDistribution.moderate = Num (Fin m),
        HealthDistribution.stressed = Num (Fin s), HealthDistribution.unhealthy = Num (Fin u),
        HealthDistribution.total = Num (Fin (h + m + s + u)),
        HealthDistribution.healthy_percentage =
          Math_round (js_mul (js_div (Fin h) (Fin (h + m + s + u))) (Fin 100)),
        HealthDistribution.moderate_percentage =
          Math_round (js_mul (js_div (Fin m) (Fin (h + m + s + u))) (Fin 100)),
        HealthDistribution.stressed_percentage =
          Math_round (js_mul (js_div (Fin s) (Fin (h + m + s + u))) (Fin 100)),
        HealthDistribution.unhealthy_percentage =
          Math_round (js_mul (js_div (Fin u) (Fin (h + m + s + u))) (Fin 100)) \<rparr>"
  let ?N = "\<lparr> current_average = or_else score (Num (Fin 0)),
        NDVIData.healthy_percentage =
          Math_round (js_mul (js_div (Fin h) (Fin (h + m + s + u))) (Fin 100)),
        NDVIData.moderate_percentage =
          Math_round (js_mul (js_div (Fin m) (Fin (h + m + s + u))) (Fin 100)),
        NDVIData.stressed_percentage =
          Math_round (js_mul (js_div (Fin s) (Fin (h + m + s + u))) (Fin 100)),
        NDVIData.unhealthy_percentage =
          Math_round (js_mul (js_div (Fin u) (Fin (h + m + s + u))) (Fin 100)) \<rparr>"
  have fields:
    "HealthDistribution.healthy_percentage ?R
       = Math_round (js_mul (js_div (Fin h) (Fin (h + m + s + u))) (Fin 100))"
    "HealthDistribution.moderate_percentage ?R
       = Math_round (js_mul (js_div (Fin m) (Fin (h + m + s + u))) (Fin 100))"
    "HealthDistribution.stressed_percentage ?R
       = Math_round (js_mul (js_div (Fin s) (Fin (h + m + s + u))) (Fin 100))"
    "HealthDistribution.unhealthy_percentage ?R
       = Math_round (js_mul (js_div (Fin u) (Fin (h + m + s + u))) (Fin 100))"
    "NDVIData.healthy_percentage ?N = HealthDistribution.healthy_percentage ?R"
    "NDVIData.moderate_percentage ?N = HealthDistribution.moderate_percentage ?R"
    "NDVIData.stressed_percentage ?N = HealthDistribution.stressed_percentage ?R"
    "NDVIData.unhealthy_percentage ?N = HealthDistribution.unhealthy_percentage ?R"
    by (simp_all del: js_div.simps js_mul.simps Math_round.simps)
  from percentages_near_100 [OF assms(1-5)] obtain a b c d :: int where whole:
    "Math_round (js_mul (js_div (Fin h) (Fin (h + m + s + u))) (Fin 100)) = Fin (of_int a)"
    "Math_round (js_mul (js_div (Fin m) (Fin (h + m + s + u))) (Fin 100)) = Fin (of_int b)"
    "Math_round (js_mul (js_div (Fin s) (Fin (h + m + s + u))) (Fin 100)) = Fin (of_int c)"
    "Math_round (js_mul (js_div (Fin u) (Fin (h + m + s + u))) (Fin 100)) = Fin (of_int d)"
    and near:
    "\<bar>of_int a - 100 * h / (h + m + s + u)\<bar> \<le> 5 / 8"
    "\<bar>of_int b - 100 * m / (h + m + s + u)\<bar> \<le> 5 / 8"
    "\<bar>of_int c - 100 * s / (h + m + s + u)\<bar> \<le> 5 / 8"
    "\<bar>of_int d - 100 * u / (h + m + s + u)\<bar> \<le> 5 / 8"
    and total: "98 \<le> a + b + c + d" "a + b + c + d \<le> 102"
    by blast
  show ?thesis
    apply (rule exI [of _ ?R])
    apply (rule exI [of _ ?N])
    apply (rule exI [of _ a])
    apply (rule exI [of _ b])
    apply (rule exI [of _ c])
    apply (rule exI [of _ d])
    apply (intro conjI)
    apply (rule r)
    apply (rule n)
    apply (rule fields(1))
    apply (rule fields(2))
    apply (rule fields(3))
    apply (rule fields(4))
    apply (rule trans [OF fields(1) whole(1)])
    apply (rule trans [OF fields(2) whole(2)])
    apply (rule trans [OF fields(3) whole(3)])
    apply (rule trans [OF fields(4) whole(4)])
    apply (rule near(1))
    apply (rule near(2))
    apply (rule near(3))
    apply (rule near(4))
    apply (rule total(1))
    apply (rule total(2))
    apply (rule fields(5))
    apply (rule fields(6))
    apply (rule fields(7))
    apply (rule fields(8))
    done
qed

theorem percentages_sum_near_100_witness:
  "(let distribution =
          Obj [(lit ''healthy'', Num (Fin 29)), (lit ''moderate'', Num (Fin 29)),
               (lit ''stressed'', Num (Fin 29)), (lit ''unhealthy'', Num (Fin 113)),
               (lit ''total'', Num (Fin (29 + 29 + 29 + 113)))];
        body = Obj [(lit ''tree_distribution'', distribution)]
    in (0::rat) \<le> 29 \<and> (0::rat) \<le> 113 \<and> (0::rat) < 29 + 29 + 29 + 113
     \<and> dist_of body = Some distribution
     \<and> get distribution ''healthy'' = Some (Num (Fin 29))
     \<and> get distribution ''moderate'' = Some (Num (Fin 29))
     \<and> get distribution ''stressed'' = Some (Num (Fin 29))
     \<and> get distribution ''unhealthy'' = Some (Num (Fin 113))
     \<and> get distribution ''total'' = Some (Num (Fin (29 + 29 + 29 + 113)))
     \<and> (\<exists>r. \<exists>a b c d :: int.
           health_distribution_of body = Some r
         \<and> HealthDistribution.healthy_percentage r = Fin (of_int a)
         \<and> HealthDistribution.moderate_percentage r = Fin (of_int b)
         \<and> HealthDistribution.stressed_percentage r = Fin (of_int c)
         \<and> HealthDistribution.unhealthy_percentage r = Fin (of_int d)
         \<and> 98 \<le> a + b + c + d \<and> a + b + c + d \<le> 102))"
proof -
  let ?distribution =
    "Obj [(lit ''healthy'', Num (Fin 29)), (lit ''moderate'', Num (Fin 29)),
          (lit ''stressed'', Num (Fin 29)), (lit ''unhealthy'', Num (Fin 113)),
          (lit ''total'', Num (Fin (29 + 29 + 29 + 113)))]"
  let ?body = "Obj [(lit ''tree_distribution'', ?distribution)]"
  have n: "(0::rat) \<le> 29" "(0::rat) \<le> 113" "(0::rat) < 29 + 29 + 29 + 113" by simp_all
  have d: "dist_of ?body = Some ?distribution"
    by (simp add: dist_of_def or_else_def)
  have g: "get ?distribution ''healthy'' = Some (Num (Fin 29))"
    "get ?distribution ''moderate'' = Some (Num (Fin 29))"
    "get ?distribution ''stressed'' = Some (Num (Fin 29))"
    "get ?distribution ''unhealthy'' = Some (Num (Fin 113))"
    "get ?distribution ''total'' = Some (Num (Fin (29 + 29 + 29 + 113)))"
    by (simp_all add: lit_def)
  from percentages_sum_near_100 [OF n(1) n(1) n(1) n(2) n(3) d g]
  have "\<exists>r. \<exists>a b c d :: int.
           health_distribution_of ?body = Some r
         \<and> HealthDistribution.healthy_percentage r = Fin (of_int a)
         \<and> HealthDistribution.moderate_percentage r = Fin (of_int b)
         \<and> HealthDistribution.stressed_percentage r = Fin (of_int c)
         \<and> HealthDistribution.unhealthy_percentage r = Fin (of_int d)
         \<and> 98 \<le> a + b + c + d \<and> a + b + c + d \<le> 102"
    by blast
  with n d g show ?thesis unfolding Let_def by blast
qed

text \<open>
  The claim as stated, for every response whose buckets partition the total, fails for a
  location without trees: the buckets 0, 0, 0, 0 partition the total 0, the divisor
  becomes 1, and the four percentages are 0, which is not 100 up to rounding.
\<close>

theorem percentages_of_empty_forest:
  "health_distribution_of
     (Obj [(lit ''tree_distribution'',
            Obj [(lit ''healthy'', Num (Fin 0)), (lit ''moderate'', Num (Fin 0)),
                 (lit ''stressed'', Num (Fin 0)), (lit ''unhealthy'', Num (Fin 0)),
                 (lit ''total'', Num (Fin (0 + 0 + 0 + 0)))])])
     = Some \<lparr> HealthDistribution.healthy = Num (Fin 0), HealthDistribution.moderate = Num (Fin 0),
              HealthDistribution.stressed = Num (Fin 0), HealthDistribution.unhealthy = Num (Fin 0),
              HealthDistribution.total = Num (Fin 1),
              HealthDistribution.healthy_percentage = Fin 0,
              HealthDistribution.moderate_percentage = Fin 0,
              HealthDistribution.stressed_percentage = Fin 0,
              HealthDistribution.unhealthy_percentage = Fin 0 \<rparr>
   \<and> ndvi_data_of
     (Obj [(lit ''tree_distribution'',
            Obj [(lit ''healthy'', Num (Fin 0)), (lit ''moderate'', Num (Fin 0)),
                 (lit ''stressed'', Num (Fin 0)), (lit ''unhealthy'', Num (Fin 0)),
                 (lit ''total'', Num (Fin (0 + 0 + 0 + 0)))])])
     = Some \<lparr> current_average = Num (Fin 0),
              NDVIData.healthy_percentage = Fin 0, NDVIData.moderate_percentage = Fin 0,
              NDVIData.stressed_percentage = Fin 0, NDVIData.unhealthy_percentage = Fin 0 \<rparr>"
  by (simp add: health_distribution_of_def ndvi_data_of_def dist_of_def percentage_def
      or_else_def lit_def fl_def floor_half)

text \<open>
  Both bounds are reached. With 29, 29, 29 and 113 trees of 200 the quotients are halves
  in exact arithmetic, the doubles fall just below them (\<^verbatim>\<open>29 / 200 * 100\<close> is
  \<^verbatim>\<open>14.499999999999998\<close>) and the four percentages are 14, 14, 14 and 56. With 5, 1, 1 and
  1 trees of 8 the halves are exact and round up, to 63, 13, 13 and 13.
\<close>

lemma Math_round_numeral:
  assumes "of_int k \<le> x + 1 / 2" and "x + 1 / 2 < of_int k + 1"
  shows "Math_round (Fin x) = Fin (of_int k)"
  using floor_unique [OF assms] by simp

lemma percentage_29_of_200: "percentage (Num (Fin 29)) (Num (Fin 200)) = Some (Fin 14)"
proof -
  let ?A = "of_int 5224175567749775 * 2 powi (- 3 - 52) :: rat"
  let ?B = "of_int 8162774324609023 * 2 powi (3 - 52) :: rat"
  have "fl (29 / 200) = Fin ?A"
    by (rule fl_eqI) (simp_all add: power_int_minus_divide)
  then have d: "js_div (Fin 29) (Fin 200) = Fin ?A" by simp
  have "fl (?A * 100) = Fin ?B"
    by (rule fl_eqI) (simp_all add: power_int_minus_divide)
  then have m: "js_mul (Fin ?A) (Fin 100) = Fin ?B" by simp
  have r: "Math_round (Fin ?B) = Fin (of_int 14)"
    by (rule Math_round_numeral) (simp_all add: power_int_minus_divide)
  show ?thesis unfolding percentage_Num d m r by simp
qed

lemma percentage_113_of_200: "percentage (Num (Fin 113)) (Num (Fin 200)) = Some (Fin 56)"
proof -
  let ?A = "of_int 5089067578928660 * 2 powi (- 1 - 52) :: rat"
  let ?B = "of_int 7951668092076031 * 2 powi (5 - 52) :: rat"
  have "fl (113 / 200) = Fin ?A"
    by (rule fl_eqI) (simp_all add: power_int_minus_divide)
  then have d: "js_div (Fin 113) (Fin 200) = Fin ?A" by simp
  have "fl (?A * 100) = Fin ?B"
    by (rule fl_eqI) (simp_all add: power_int_minus_divide)
  then have m: "js_mul (Fin ?A) (Fin 100) = Fin ?B" by simp
  have r: "Math_round (Fin ?B) = Fin (of_int 56)"
    by (rule Math_round_numeral) (simp_all add: power_int_minus_divide)
  show ?thesis unfolding percentage_Num d m r by simp
qed

lemma percentage_23_of_40: "percentage (Num (Fin 23)) (Num (Fin 40)) = Some (Fin 57)"
proof -
  let ?A = "of_int 5179139571476070 * 2 powi (- 1 - 52) :: rat"
  let ?B = "of_int 8092405580431359 * 2 powi (5 - 52) :: rat"
  have "fl (23 / 40) = Fin ?A"
    by (rule fl_eqI) (simp_all add: power_int_minus_divide)
  then have d: "js_div (Fin 23) (Fin 40) = Fin ?A" by simp
  have "fl (?A * 100) = Fin ?B"
    by (rule fl_eqI) (simp_all add: power_int_minus_divide)
  then have m: "js_mul (Fin ?A) (Fin 100) = Fin ?B" by simp
  have r: "Math_round (Fin ?B) = Fin (of_int 57)"
    by (rule Math_round_numeral) (simp_all add: power_int_minus_divide)
  show ?thesis unfolding percentage_Num d m r by simp
qed

lemma fl_dyadic:
  "fl (1 / 8) = Fin (1 / 8)" "fl (5 / 8) = Fin (5 / 8)"
  "fl (25 / 2) = Fin (25 / 2)" "fl (125 / 2) = Fin (125 / 2)"
proof -
  have "fl (of_int 1 * 2 powi (- 3)) = Fin (of_int 1 * 2 powi (- 3))"
    by (rule fl_exact_pos) (simp_all add: power_int_minus_divide)
  then show "fl (1 / 8) = Fin (1 / 8)" by (simp add: power_int_minus_divide)
  have "fl (of_int 5 * 2 powi (- 3)) = Fin (of_int 5 * 2 powi (- 3))"
    by (rule fl_exact_pos) (simp_all add: power_int_minus_divide)
  then show "fl (5 / 8) = Fin (5 / 8)" by (simp add: power_int_minus_divide)
  have "fl (of_int 25 * 2 powi (- 1)) = Fin (of_int 25 * 2 powi (- 1))"
    by (rule fl_exact_pos) (simp_all add: power_int_minus_divide)
  then show "fl (25 / 2) = Fin (25 / 2)" by (simp add: power_int_minus_divide)
  have "fl (of_int 125 * 2 powi (- 1)) = Fin (of_int 125 * 2 powi (- 1))"
    by (rule fl_exact_pos) (simp_all add: power_int_minus_divide)
  then show "fl (125 / 2) = Fin (125 / 2)" by (simp add: power_int_minus_divide)
qed

lemma percentage_1_of_8: "percentage (Num (Fin 1)) (Num (Fin 8)) = Some (Fin 13)"
proof -
  have "Math_round (Fin (25 / 2)) = Fin (of_int 13)"
    by (rule Math_round_numeral) simp_all
  then show ?thesis by (simp add: percentage_Num fl_dyadic)
qed

lemma percentage_5_of_8: "percentage (Num (Fin 5)) (Num (Fin 8)) = Some (Fin 63)"
proof -
  have "Math_round (Fin (125 / 2)) = Fin (of_int 63)"
    by (rule Math_round_numeral) simp_all
  then show ?thesis by (simp add: percentage_Num fl_dyadic)
qed

lemma percentages_reach_the_bounds:
  "map_option (\<lambda>r. [HealthDistribution.healthy_percentage r,
                       HealthDistribution.moderate_percentage r,
                       HealthDistribution.stressed_percentage r,
                       HealthDistribution.unhealthy_percentage r])
     (health_distribution_of
        (Obj [(lit ''tree_distribution'',
               Obj [(lit ''healthy'', Num (Fin 29)), (lit ''moderate'', Num (Fin 29)),
                    (lit ''stressed'', Num (Fin 29)), (lit ''unhealthy'', Num (Fin 113)),
                    (lit ''total'', Num (Fin 200))])]))
     = Some [Fin 14, Fin 14, Fin 14, Fin 56]"
  "map_option (\<lambda>r. [HealthDistribution.healthy_percentage r,
                       HealthDistribution.moderate_percentage r,
                       HealthDistribution.stressed_percentage r,
                       HealthDistribution.unhealthy_percentage r])
     (health_distribution_of
        (Obj [(lit ''tree_distribution'',
               Obj [(lit ''healthy'', Num (Fin 5)), (lit ''moderate'', Num (Fin 1)),
                    (lit ''stressed'', Num (Fin 1)), (lit ''unhealthy'', Num (Fin 1)),
                    (lit ''total'', Num (Fin 8))])]))
     = Some [Fin 63, Fin 13, Fin 13, Fin 13]"
  by (simp_all add: health_distribution_of_def dist_of_def or_else_def lit_def
      percentage_29_of_200 percentage_113_of_200 percentage_1_of_8 percentage_5_of_8)

subsection \<open>The guard on the divisor\<close>

lemma get_truthy: "ToBoolean v \<Longrightarrow> get v k = Some (get_opt v k)"
  by (cases v) (simp_all add: get_opt_def)

lemma dist_of_truthy: "dist_of body = Some distribution \<Longrightarrow> ToBoolean distribution"
  by (auto simp add: dist_of_def or_else_def split: if_splits)

lemma dist_of_get:
  "dist_of body = Some distribution \<Longrightarrow> get distribution k = Some (get_opt distribution k)"
  by (intro get_truthy dist_of_truthy)

lemma or_else_falsy: "\<not> ToBoolean v \<Longrightarrow> or_else v d = d"
  by (simp add: or_else_def)

lemma or_else_divisor:
  assumes "whole = Undefined \<or> (\<exists>x. whole = Num x)"
  shows "\<exists>y. or_else whole (Num (Fin 1)) = Num y \<and> y \<noteq> Fin 0 \<and> y \<noteq> NaN"
proof -
  from assms consider "whole = Undefined" | x where "whole = Num x" by blast
  then show ?thesis
  proof cases
    case 1
    then show ?thesis by (simp add: or_else_def)
  next
    case 2
    then show ?thesis by (cases x) (auto simp add: or_else_def)
  qed
qed

lemma count_in_rangeE:
  assumes "count_in_range v"
  obtains x where "or_else v (Num (Fin 0)) = Num (Fin x)" and "\<bar>x\<bar> \<le> 2 ^ 53"
proof -
  from assms consider "v = Undefined" | y where "v = Num (Fin y)" "\<bar>y\<bar> \<le> 2 ^ 53"
    by (auto simp add: count_in_range_def split: jsval.splits jsnum.splits)
  then show ?thesis
  proof cases
    case 1
    then have "or_else v (Num (Fin 0)) = Num (Fin 0)" by (simp add: or_else_def)
    then show ?thesis by (rule that) simp
  next
    case 2
    then have "or_else v (Num (Fin 0)) = Num (Fin y)" by simp
    then show ?thesis using 2(2) by (rule that)
  qed
qed

lemma total_in_rangeE:
  assumes "total_in_range v"
  obtains t where "or_else v (Num (Fin 1)) = Num (Fin t)" and "1 \<le> \<bar>t\<bar>" and "\<bar>t\<bar> \<le> 2 ^ 53"
proof -
  from assms consider "v = Undefined" | "v = Num (Fin 0)"
    | y where "v = Num (Fin y)" "1 \<le> \<bar>y\<bar>" "\<bar>y\<bar> \<le> 2 ^ 53"
    by (auto simp add: total_in_range_def split: jsval.splits jsnum.splits)
  then show ?thesis
  proof cases
    case 1
    then have "or_else v (Num (Fin 1)) = Num (Fin 1)" by (simp add: or_else_def)
    then show ?thesis by (rule that) simp_all
  next
    case 2
    then have "or_else v (Num (Fin 1)) = Num (Fin 1)" by (simp add: or_else_def)
    then show ?thesis by (rule that) simp_all
  next
    case 3
    then have "y \<noteq> 0" by auto
    with 3(1) have "or_else v (Num (Fin 1)) = Num (Fin y)" by (simp add: or_else_def)
    then show ?thesis using 3(2,3) by (rule that)
  qed
qed

lemma percentage_finite:
  assumes "count_in_range b" and "1 \<le> \<bar>t\<bar>"
  shows "\<exists>p. percentage b (Num (Fin t)) = Some p \<and> is_finite p"
proof -
  from assms(1) obtain x where x: "or_else b (Num (Fin 0)) = Num (Fin x)" "\<bar>x\<bar> \<le> 2 ^ 53"
    by (rule count_in_rangeE)
  have t: "t \<noteq> 0" using assms(2) by auto
  have "\<bar>x / t\<bar> = \<bar>x\<bar> / \<bar>t\<bar>" by simp
  also have "\<dots> \<le> \<bar>x\<bar> / 1"
    using assms(2) by (intro divide_left_mono) simp_all
  finally have q: "\<bar>x / t\<bar> \<le> 2 ^ 53" using x(2) by simp
  then have "\<bar>x / t\<bar> \<le> 2 powi 1023" by (intro small_le_pow2_1023) simp
  from fl_error [OF this] obtain y where
    y: "fl (x / t) = Fin y" "\<bar>y - x / t\<bar> \<le> max (\<bar>x / t\<bar> / 2 ^ 53) (2 powi (- 1075))"
    by auto
  have "max (\<bar>x / t\<bar> / 2 ^ 53) (2 powi (- 1075)) \<le> 2 ^ 53 / 2 ^ 53"
    using q by (intro rounding_unit) simp_all
  with y(2) have "\<bar>y - x / t\<bar> \<le> 1" by simp
  with q have "\<bar>y\<bar> \<le> 2 ^ 53 + 1" by linarith
  then have "\<bar>y * 100\<bar> \<le> 2 ^ 64" by (simp add: abs_mult)
  then have "\<bar>y * 100\<bar> \<le> 2 powi 1023" by (rule small_le_pow2_1023)
  from fl_error [OF this] obtain w where "fl (y * 100) = Fin w" by auto
  then show ?thesis using x(1) y(1) t by (simp add: percentage_def)
qed

lemma health_distribution_of_eq:
  assumes "dist_of body = Some distribution"
  defines "divisor \<equiv> or_else (get_opt distribution ''total'') (Num (Fin 1))"
  shows "health_distribution_of body = do {
     hp \<leftarrow> percentage (get_opt distribution ''healthy'') divisor;
     mp \<leftarrow> percentage (get_opt distribution ''moderate'') divisor;
     sp \<leftarrow> percentage (get_opt distribution ''stressed'') divisor;
     up \<leftarrow> percentage (get_opt distribution ''unhealthy'') divisor;
     Some \<lparr> HealthDistribution.healthy = or_else (get_opt distribution ''healthy'') (Num (Fin 0)),
            HealthDistribution.moderate = or_else (get_opt distribution ''moderate'') (Num (Fin 0)),
            HealthDistribution.stressed = or_else (get_opt distribution ''stressed'') (Num (Fin 0)),
            HealthDistribution.unhealthy =
              or_else (get_opt distribution ''unhealthy'') (Num (Fin 0)),
            HealthDistribution.total = divisor,
            HealthDistribution.healthy_percentage = hp,
            HealthDistribution.moderate_percentage = mp,
            HealthDistribution.stressed_percentage = sp,
            HealthDistribution.unhealthy_percentage = up \<rparr> }"
  unfolding health_distribution_of_def divisor_def
  by (simp add: Let_def assms(1) dist_of_get [OF assms(1)])

lemma ndvi_data_of_eq:
  assumes "dist_of body = Some distribution"
  defines "divisor \<equiv> or_else (get_opt distribution ''total'') (Num (Fin 1))"
  shows "ndvi_data_of body = do {
     hp \<leftarrow> percentage (get_opt distribution ''healthy'') divisor;
     mp \<leftarrow> percentage (get_opt distribution ''moderate'') divisor;
     sp \<leftarrow> percentage (get_opt distribution ''stressed'') divisor;
     up \<leftarrow> percentage (get_opt distribution ''unhealthy'') divisor;
     Some \<lparr> current_average = or_else (get_opt body ''health_score'') (Num (Fin 0)),
            NDVIData.healthy_percentage = hp,
            NDVIData.moderate_percentage = mp,
            NDVIData.stressed_percentage = sp,
            NDVIData.unhealthy_percentage = up \<rparr> }"
proof -
  from assms(1) obtain td where "get body ''tree_distribution'' = Some td"
    by (auto simp add: dist_of_def)
  from get_other_name [OF this] obtain score where "get body ''health_score'' = Some score"
    by blast
  then have "get body ''health_score'' = Some (get_opt body ''health_score'')"
    by (simp add: get_opt_def)
  then show ?thesis
    unfolding ndvi_data_of_def divisor_def
    by (simp add: Let_def assms(1) dist_of_get [OF assms(1)])
qed

lemma fl_2_1023: "fl (2 powi 1023) = Fin (2 powi 1023)"
proof -
  have "(2::rat) powi 1023 < 2 powi 1024" by (rule power_int_strict_increasing) simp_all
  then have "of_int 1 * 2 powi 1023 < (2::rat) powi 1024" by simp
  then have "fl (of_int 1 * 2 powi 1023) = Fin (of_int 1 * 2 powi 1023)"
    by (intro fl_exact_pos) simp_all
  then show ?thesis by simp
qed

lemma fl_2_1023_times_100: "fl (2 powi 1023 * 100) = PInf"
proof (rule fl_overflow)
  have "(2::rat) powi 1024 = 2 powi 1023 * 2" using pow2_add [of 1023 1] by simp
  also have "\<dots> \<le> 2 powi 1023 * 100" by (intro mult_left_mono) simp_all
  finally show "(2::rat) powi 1024 \<le> 2 powi 1023 * 100" .
qed

lemma percentage_2_1023: "percentage (Num (Fin (2 powi 1023))) (Num (Fin 1)) = Some PInf"
proof -
  have "js_div (Fin (2 powi 1023)) (Fin 1) = Fin (2 powi 1023)"
    using fl_2_1023 by (simp del: power_int_numeral)
  moreover have "js_mul (Fin (2 powi 1023)) (Fin 100) = PInf"
    using fl_2_1023_times_100 by (simp del: power_int_numeral)
  ultimately show ?thesis by (simp only: percentage_Num Math_round.simps)
qed

text \<open>
  C10 (as amended). In \<^verbatim>\<open>fetchHealthDistribution\<close> and \<^verbatim>\<open>fetchNDVIData\<close> the divisor is
  \<^verbatim>\<open>dist.total || 1\<close>, for every response that is not \<^verbatim>\<open>null\<close>. It is 1 when the total is
  missing, zero or another falsy value. When the total is missing or a number, the divisor
  is a number that is neither zero nor NaN, and no percentage is a division by zero.
  Every percentage is computed with that divisor. When every bucket is missing or a
  finite number of magnitude at most \<open>2\<^sup>5\<^sup>3\<close>, and the total is missing, zero, or of
  magnitude between 1 and \<open>2\<^sup>5\<^sup>3\<close>, both fetchers resolve and every count and every
  percentage returned is a finite number.
\<close>

theorem divisor_guard:
  fixes body distribution :: jsval
  assumes "dist_of body = Some distribution"
  defines "whole \<equiv> get_opt distribution ''total''"
  defines "divisor \<equiv> or_else whole (Num (Fin 1))"
  shows "(whole = Undefined \<or> whole = Num (Fin 0) \<or> \<not> ToBoolean whole
        \<longrightarrow> divisor = Num (Fin 1))
    \<and> (whole = Undefined \<or> (\<exists>x. whole = Num x)
        \<longrightarrow> (\<exists>y. divisor = Num y \<and> y \<noteq> Fin 0 \<and> y \<noteq> NaN))
    \<and> (\<forall>r. health_distribution_of body = Some r
        \<longrightarrow> HealthDistribution.total r = divisor
          \<and> percentage (get_opt distribution ''healthy'') divisor
              = Some (HealthDistribution.healthy_percentage r)
          \<and> percentage (get_opt distribution ''moderate'') divisor
              = Some (HealthDistribution.moderate_percentage r)
          \<and> percentage (get_opt distribution ''stressed'') divisor
              = Some (HealthDistribution.stressed_percentage r)
          \<and> percentage (get_opt distribution ''unhealthy'') divisor
              = Some (HealthDistribution.unhealthy_percentage r))
    \<and> (\<forall>n. ndvi_data_of body = Some n
        \<longrightarrow> percentage (get_opt distribution ''healthy'') divisor
              = Some (NDVIData.healthy_percentage n)
          \<and> percentage (get_opt distribution ''moderate'') divisor
              = Some (NDVIData.moderate_percentage n)
          \<and> percentage (get_opt distribution ''stressed'') divisor
              = Some (NDVIData.stressed_percentage n)
          \<and> percentage (get_opt distribution ''unhealthy'') divisor
              = Some (NDVIData.unhealthy_percentage n))
    \<and> (count_in_range (get_opt distribution ''healthy'')
        \<and> count_in_range (get_opt distribution ''moderate'')
        \<and> count_in_range (get_opt distribution ''stressed'')
        \<and> count_in_range (get_opt distribution ''unhealthy'')
        \<and> total_in_range whole
        \<longrightarrow> (\<exists>r n. health_distribution_of body = Some r \<and> ndvi_data_of body = Some n
              \<and> finite_number (HealthDistribution.healthy r)
              \<and> finite_number (HealthDistribution.moderate r)
              \<and> finite_number (HealthDistribution.stressed r)
              \<and> finite_number (HealthDistribution.unhealthy r)
              \<and> finite_number (HealthDistribution.total r)
              \<and> is_finite (HealthDistribution.healthy_percentage r)
              \<and> is_finite (HealthDistribution.moderate_percentage r)
              \<and> is_finite (HealthDistribution.stressed_percentage r)
              \<and> is_finite (HealthDistribution.unhealthy_percentage r)
              \<and> is_finite (NDVIData.healthy_percentage n)
              \<and> is_finite (NDVIData.moderate_percentage n)
              \<and> is_finite (NDVIData.stressed_percentage n)
              \<and> is_finite (NDVIData.unhealthy_percentage n)))"
proof -
  note r_eq = health_distribution_of_eq [OF assms(1), folded whole_def, folded divisor_def]
  note n_eq = ndvi_data_of_eq [OF assms(1), folded whole_def, folded divisor_def]
  have falsy: "divisor = Num (Fin 1)"
    if "whole = Undefined \<or> whole = Num (Fin 0) \<or> \<not> ToBoolean whole"
  proof -
    from that have "\<not> ToBoolean whole" by auto
    then show ?thesis unfolding divisor_def by (rule or_else_falsy)
  qed
  have number: "\<exists>y. divisor = Num y \<and> y \<noteq> Fin 0 \<and> y \<noteq> NaN"
    if "whole = Undefined \<or> (\<exists>x. whole = Num x)"
    unfolding divisor_def using that by (rule or_else_divisor)
  have health: "HealthDistribution.total r = divisor
          \<and> percentage (get_opt distribution ''healthy'') divisor
              = Some (HealthDistribution.healthy_percentage r)
          \<and> percentage (get_opt distribution ''moderate'') divisor
              = Some (HealthDistribution.moderate_percentage r)
          \<and> percentage (get_opt distribution ''stressed'') divisor
              = Some (HealthDistribution.stressed_percentage r)
          \<and> percentage (get_opt distribution ''unhealthy'') divisor
              = Some (HealthDistribution.unhealthy_percentage r)"
    if "health_distribution_of body = Some r" for r
    using that unfolding r_eq by (auto simp add: bind_eq_Some_conv)
  have ndvi: "percentage (get_opt distribution ''healthy'') divisor
              = Some (NDVIData.healthy_percentage n)
          \<and> percentage (get_opt distribution ''moderate'') divisor
              = Some (NDVIData.moderate_percentage n)
          \<and> percentage (get_opt distribution ''stressed'') divisor
              = Some (NDVIData.stressed_percentage n)
          \<and> percentage (get_opt distribution ''unhealthy'') divisor
              = Some (NDVIData.unhealthy_percentage n)"
    if "ndvi_data_of body = Some n" for n
    using that unfolding n_eq by (auto simp add: bind_eq_Some_conv)
  have finite: "\<exists>r n. health_distribution_of body = Some r \<and> ndvi_data_of body = Some n
              \<and> finite_number (HealthDistribution.healthy r)
              \<and> finite_number (HealthDistribution.moderate r)
              \<and> finite_number (HealthDistribution.stressed r)
              \<and> finite_number (HealthDistribution.unhealthy r)
              \<and> finite_number (HealthDistribution.total r)
              \<and> is_finite (HealthDistribution.healthy_percentage r)
              \<and> is_finite (HealthDistribution.moderate_percentage r)
              \<and> is_finite (HealthDistribution.stressed_percentage r)
              \<and> is_finite (HealthDistribution.unhealthy_percentage r)
              \<and> is_finite (NDVIData.healthy_percentage n)
              \<and> is_finite (NDVIData.moderate_percentage n)
              \<and> is_finite (NDVIData.stressed_percentage n)
              \<and> is_finite (NDVIData.unhealthy_percentage n)"
    if range: "count_in_range (get_opt distribution ''healthy'')
        \<and> count_in_range (get_opt distribution ''moderate'')
        \<and> count_in_range (get_opt distribution ''stressed'')
        \<and> count_in_range (get_opt distribution ''unhealthy'')
        \<and> total_in_range whole"
  proof -
    from range have h: "count_in_range (get_opt distribution ''healthy'')"
      and m: "count_in_range (get_opt distribution ''moderate'')"
      and s: "count_in_range (get_opt distribution ''stressed'')"
      and u: "count_in_range (get_opt distribution ''unhealthy'')"
      and t: "total_in_range whole"
      by blast+
    from t obtain x where x: "divisor = Num (Fin x)" "1 \<le> \<bar>x\<bar>"
      unfolding divisor_def by (rule total_in_rangeE)
    from percentage_finite [OF h x(2)] obtain hp where
      hp: "percentage (get_opt distribution ''healthy'') divisor = Some hp" "is_finite hp"
      unfolding x(1) by blast
    from percentage_finite [OF m x(2)] obtain mp where
      mp: "percentage (get_opt distribution ''moderate'') divisor = Some mp" "is_finite mp"
      unfolding x(1) by blast
    from percentage_finite [OF s x(2)] obtain sp where
      sp: "percentage (get_opt distribution ''stressed'') divisor = Some sp" "is_finite sp"
      unfolding x(1) by blast
    from percentage_finite [OF u x(2)] obtain up where
      up: "percentage (get_opt distribution ''unhealthy'') divisor = Some up" "is_finite up"
      unfolding x(1) by blast
    have counts: "finite_number (or_else (get_opt distribution ''healthy'') (Num (Fin 0)))"
      "finite_number (or_else (get_opt distribution ''moderate'') (Num (Fin 0)))"
      "finite_number (or_else (get_opt distribution ''stressed'') (Num (Fin 0)))"
      "finite_number (or_else (get_opt distribution ''unhealthy'') (Num (Fin 0)))"
      using h m s u by (auto elim!: count_in_rangeE simp add: finite_number_def)
    have whole: "finite_number divisor" using x(1) by (simp add: finite_number_def)
    show ?thesis
      unfolding r_eq n_eq hp(1) mp(1) sp(1) up(1)
      using counts whole hp(2) mp(2) sp(2) up(2) by simp
  qed
  show ?thesis
    apply (intro conjI impI allI)
    apply (erule falsy)
    apply (erule number)
    apply (erule health [THEN conjunct1])
    apply (erule health [THEN conjunct2, THEN conjunct1])
    apply (erule health [THEN conjunct2, THEN conjunct2, THEN conjunct1])
    apply (erule health [THEN conjunct2, THEN conjunct2, THEN conjunct2, THEN conjunct1])
    apply (erule health [THEN conjunct2, THEN conjunct2, THEN conjunct2, THEN conjunct2])
    apply (erule ndvi [THEN conjunct1])
    apply (erule ndvi [THEN conjunct2, THEN conjunct1])
    apply (erule ndvi [THEN conjunct2, THEN conjunct2, THEN conjunct1])
    apply (erule ndvi [THEN conjunct2, THEN conjunct2, THEN conjunct2])
    apply (erule finite)
    done
qed

theorem divisor_guard_witness:
  "(let distribution = Obj [(lit ''healthy'', Num (Fin 5)), (lit ''moderate'', Num (Fin 3))];
        body = Obj [(lit ''tree_distribution'', distribution)];
        whole = get_opt distribution ''total''
    in dist_of body = Some distribution
     \<and> whole = Undefined
     \<and> count_in_range (get_opt distribution ''healthy'')
     \<and> count_in_range (get_opt distribution ''moderate'')
     \<and> count_in_range (get_opt distribution ''stressed'')
     \<and> count_in_range (get_opt distribution ''unhealthy'')
     \<and> total_in_range whole
     \<and> or_else whole (Num (Fin 1)) = Num (Fin 1)
     \<and> (\<exists>r. health_distribution_of body = Some r
           \<and> HealthDistribution.total r = Num (Fin 1)
           \<and> finite_number (HealthDistribution.healthy r)
           \<and> is_finite (HealthDistribution.healthy_percentage r)
           \<and> is_finite (HealthDistribution.moderate_percentage r)
           \<and> is_finite (HealthDistribution.stressed_percentage r)
           \<and> is_finite (HealthDistribution.unhealthy_percentage r)))"
proof -
  let ?d = "Obj [(lit ''healthy'', Num (Fin 5)), (lit ''moderate'', Num (Fin 3))]"
  let ?body = "Obj [(lit ''tree_distribution'', ?d)]"
  have d: "dist_of ?body = Some ?d" by (simp add: dist_of_def or_else_def)
  have w: "get_opt ?d ''total'' = Undefined" by (simp add: get_opt_def lit_def)
  have h: "count_in_range (get_opt ?d ''healthy'')" "count_in_range (get_opt ?d ''moderate'')"
    "count_in_range (get_opt ?d ''stressed'')" "count_in_range (get_opt ?d ''unhealthy'')"
    "total_in_range (get_opt ?d ''total'')"
    by (simp_all add: get_opt_def lit_def count_in_range_def total_in_range_def)
  note t = divisor_guard [OF d]
  from t w have one: "or_else (get_opt ?d ''total'') (Num (Fin 1)) = Num (Fin 1)" by blast
  from t h obtain r n where r: "health_distribution_of ?body = Some r"
    and f: "finite_number (HealthDistribution.healthy r)"
      "is_finite (HealthDistribution.healthy_percentage r)"
      "is_finite (HealthDistribution.moderate_percentage r)"
      "is_finite (HealthDistribution.stressed_percentage r)"
      "is_finite (HealthDistribution.unhealthy_percentage r)"
    by blast
  from t r have "HealthDistribution.total r = or_else (get_opt ?d ''total'') (Num (Fin 1))"
    by blast
  with one have "HealthDistribution.total r = Num (Fin 1)" by simp
  with r f have "\<exists>r. health_distribution_of ?body = Some r
           \<and> HealthDistribution.total r = Num (Fin 1)
           \<and> finite_number (HealthDistribution.healthy r)
           \<and> is_finite (HealthDistribution.healthy_percentage r)
           \<and> is_finite (HealthDistribution.moderate_percentage r)
           \<and> is_finite (HealthDistribution.stressed_percentage r)
           \<and> is_finite (HealthDistribution.unhealthy_percentage r)"
    by blast
  with d w h one show ?thesis unfolding Let_def by (intro conjI)
qed

lemma StringToNumber_0: "StringToNumber (lit ''0'') = Fin 0"
  by (simp add: StringToNumber_def lit_def trim_def is_white_space_def StrDecimalLiteral_def
    StrUnsignedDecimalLiteral_def digits_of_def digit_of_def exponent_of_def fl_def)

text \<open>
  The claim as stated, no division by zero and finite fields for every response, fails
  for a malformed response: in \<^verbatim>\<open>{"tree_distribution": {"healthy": 5, "total": "0"}}\<close> the
  total is a string that is not empty, so the guard keeps it, the division converts it to
  the number 0, and the percentages are \<^verbatim>\<open>Infinity\<close> and \<^verbatim>\<open>NaN\<close>.
\<close>

theorem divisor_guard_keeps_text:
  "health_distribution_of
     (Obj [(lit ''tree_distribution'',
            Obj [(lit ''healthy'', Num (Fin 5)), (lit ''total'', Str (lit ''0''))])])
     = Some \<lparr> HealthDistribution.healthy = Num (Fin 5), HealthDistribution.moderate = Num (Fin 0),
              HealthDistribution.stressed = Num (Fin 0), HealthDistribution.unhealthy = Num (Fin 0),
              HealthDistribution.total = Str (lit ''0''),
              HealthDistribution.healthy_percentage = PInf,
              HealthDistribution.moderate_percentage = NaN,
              HealthDistribution.stressed_percentage = NaN,
              HealthDistribution.unhealthy_percentage = NaN \<rparr>
   \<and> ndvi_data_of
     (Obj [(lit ''tree_distribution'',
            Obj [(lit ''healthy'', Num (Fin 5)), (lit ''total'', Str (lit ''0''))])])
     = Some \<lparr> current_average = Num (Fin 0),
              NDVIData.healthy_percentage = PInf, NDVIData.moderate_percentage = NaN,
              NDVIData.stressed_percentage = NaN, NDVIData.unhealthy_percentage = NaN \<rparr>
   \<and> to_number (Str (lit ''0'')) = Some (Fin 0)"
proof -
  let ?d = "Obj [(lit ''healthy'', Num (Fin 5)), (lit ''total'', Str (lit ''0''))]"
  let ?body = "Obj [(lit ''tree_distribution'', ?d)]"
  have d: "dist_of ?body = Some ?d" by (simp add: dist_of_def or_else_def)
  have g: "get_opt ?d ''healthy'' = Num (Fin 5)" "get_opt ?d ''moderate'' = Undefined"
    "get_opt ?d ''stressed'' = Undefined" "get_opt ?d ''unhealthy'' = Undefined"
    "get_opt ?d ''total'' = Str (lit ''0'')" "get_opt ?body ''health_score'' = Undefined"
    by (simp_all add: get_opt_def lit_def)
  have z: "to_number (Str (lit ''0'')) = Some (Fin 0)"
    by (simp add: to_number_def StringToNumber_0)
  have o: "or_else (Str (lit ''0'')) (Num (Fin 1)) = Str (lit ''0'')"
    "or_else Undefined (Num (Fin 0)) = Num (Fin 0)"
    "or_else (Num (Fin 5)) (Num (Fin 0)) = Num (Fin 5)"
    by (simp_all add: or_else_def lit_def)
  have p: "percentage (Num (Fin 5)) (Str (lit ''0'')) = Some PInf"
    "percentage Undefined (Str (lit ''0'')) = Some NaN"
    by (simp_all add: percentage_def o js_divide_def z)
  show ?thesis
    unfolding health_distribution_of_eq [OF d] ndvi_data_of_eq [OF d] g o p z by simp
qed

text \<open>
  Numbers alone break the second half of the claim too: for the response
  \<^verbatim>\<open>{"tree_distribution": {"healthy": 8.98846567431158e307}}\<close>, whose one number is the
  double \<open>2\<^sup>1\<^sup>0\<^sup>2\<^sup>3\<close>, the divisor is 1, no division by zero takes place, and the product
  with 100 overflows to \<^verbatim>\<open>Infinity\<close>. A response that is \<^verbatim>\<open>null\<close> makes both transforms
  throw.
\<close>

lemma percentage_overflows:
  "map_option (\<lambda>r. (HealthDistribution.total r, HealthDistribution.healthy_percentage r))
     (health_distribution_of
        (Obj [(lit ''tree_distribution'', Obj [(lit ''healthy'', Num (Fin (2 powi 1023)))])]))
     = Some (Num (Fin 1), PInf)"
proof -
  let ?d = "Obj [(lit ''healthy'', Num (Fin (2 powi 1023)))]"
  let ?body = "Obj [(lit ''tree_distribution'', ?d)]"
  have d: "dist_of ?body = Some ?d" by (simp add: dist_of_def or_else_def)
  have g: "get_opt ?d ''healthy'' = Num (Fin (2 powi 1023))" "get_opt ?d ''moderate'' = Undefined"
    "get_opt ?d ''stressed'' = Undefined" "get_opt ?d ''unhealthy'' = Undefined"
    "get_opt ?d ''total'' = Undefined"
    by (simp_all add: get_opt_def lit_def del: power_int_numeral)
  have o: "or_else Undefined (Num (Fin 1)) = Num (Fin 1)"
    by (simp add: or_else_def)
  have p: "percentage Undefined (Num (Fin 1)) = Some (Fin 0)"
    by (simp add: percentage_Undefined fl_def floor_half)
  show ?thesis
    unfolding health_distribution_of_eq [OF d] g o p percentage_2_1023 by simp
qed

lemma null_response_throws:
  "health_distribution_of Null = None" "ndvi_data_of Null = None"
  by (simp_all add: health_distribution_of_def ndvi_data_of_def dist_of_def)

subsection \<open>The cars offset of the carbon view\<close>

lemma fl_4_6: "fl (23 / 5) = Fin (5179139571476070 / 2 ^ 50)"
proof -
  have "fl (23 / 5) = Fin (of_int 5179139571476070 * 2 powi (2 - 52))"
    by (rule fl_eqI) (simp_all add: power_int_minus_divide)
  then show ?thesis by (simp add: power_int_minus_divide)
qed



lemma cars_offset_error:
  assumes "\<bar>x\<bar> \<le> 2 ^ 32"
  shows "\<exists>k. Math_round (js_div (Fin x) (fl (23 / 5))) = Fin (of_int k)
           \<and> \<bar>of_int k - x / (23 / 5)\<bar> \<le> 1 / 2 + 1 / 1000"
proof -
  define c :: rat where "c = 5179139571476070 / 2 ^ 50"
  have c: "fl (23 / 5) = Fin c" "c \<noteq> 0" by (simp_all add: fl_4_6 c_def)
  have "x / c - x / (23 / 5) = x * (1 / c - 5 / 23)" by (simp add: algebra_simps)
  then have "\<bar>x / c - x / (23 / 5)\<bar> = \<bar>x\<bar> * \<bar>1 / c - 5 / 23\<bar>" by (simp add: abs_mult)
  also have "\<dots> \<le> 2 ^ 32 * \<bar>1 / c - 5 / 23\<bar>"
    using assms by (intro mult_right_mono) simp_all
  also have "\<dots> \<le> 1 / 2000" by (simp add: c_def)
  finally have exact: "\<bar>x / c - x / (23 / 5)\<bar> \<le> 1 / 2000" .
  have "\<bar>x / c\<bar> = \<bar>x\<bar> * (1 / c)" by (simp add: c_def)
  also have "\<dots> \<le> \<bar>x\<bar> * 1" by (intro mult_left_mono) (simp_all add: c_def)
  finally have q: "\<bar>x / c\<bar> \<le> 2 ^ 32" using assms by simp
  then have "\<bar>x / c\<bar> \<le> 2 powi 1023" by (intro small_le_pow2_1023) simp
  from fl_error [OF this] obtain y where
    y: "fl (x / c) = Fin y" "\<bar>y - x / c\<bar> \<le> max (\<bar>x / c\<bar> / 2 ^ 53) (2 powi (- 1075))"
    by auto
  have "max (\<bar>x / c\<bar> / 2 ^ 53) (2 powi (- 1075)) \<le> 2 ^ 32 / 2 ^ 53"
    using q by (intro rounding_unit) simp_all
  moreover have "2 ^ 32 / 2 ^ 53 \<le> (1 / 2000 :: rat)" by simp
  ultimately have yq: "\<bar>y - x / c\<bar> \<le> 1 / 2000" using y(2) by linarith
  define k where "k = \<lfloor>y + 1 / 2\<rfloor>"
  have "\<bar>of_int k - y\<bar> \<le> 1 / 2" unfolding k_def by (rule Math_round_error)
  with yq exact have "\<bar>of_int k - x / (23 / 5)\<bar> \<le> 1 / 2 + 1 / 1000" by linarith
  moreover have "Math_round (js_div (Fin x) (fl (23 / 5))) = Fin (of_int k)"
    using c y(1) by (simp add: k_def)
  ultimately show ?thesis by blast
qed

text \<open>
  What \<^verbatim>\<open>fetchCarbonData\<close> computes: the cars offset is the field
  \<^verbatim>\<open>co2_equivalent_offset\<close> of the response, divided by the double 4.6 and rounded, and
  the annual capture rate is the field \<^verbatim>\<open>annual_sequestration_tons\<close>. For an offset of
  magnitude at most \<open>2\<^sup>3\<^sup>2\<close> the result is a whole number within a half (and a
  thousandth, for the floating-point error) of the exact quotient.
\<close>

lemma cars_offset_of_response:
  assumes "get body ''co2_equivalent_offset'' = Some (Num (Fin x))"
  shows "\<exists>r. carbon_data_of now body = Some r
    \<and> equivalent_cars_offset r = Math_round (js_div (Fin x) (fl (23 / 5)))
    \<and> annual_capture_rate r = or_else (get_opt body ''annual_sequestration_tons'') (Num (Fin 0))"
proof -
  from get_other_name [OF assms] obtain a where a: "get body ''annual_sequestration_tons'' = Some a"
    by blast
  from get_other_name [OF assms] obtain l where l: "get body ''location'' = Some l"
    by blast
  from get_other_name [OF assms] obtain m where m: "get body ''trees_monitored'' = Some m"
    by blast
  from get_other_name [OF assms] obtain t where t: "get body ''timestamp'' = Some t"
    by blast
  show ?thesis
    using assms a l m t by (simp add: carbon_data_of_def get_opt_def del: js_div.simps)
qed


text \<open>
  The carbon page displays the two numbers as they come from the fetcher, and the overview
  page computes its figure by one multiplication.
\<close>

lemma carbon_page_shows_the_offset:
  assumes "annual_capture_rate r = Num x"
  shows "CarbonPage \<lparr> data = Some r, isLoading = False, error = None \<rparr>
    = Content [Fixed 1 x, Value (Num (equivalent_cars_offset r)),
               Fixed 1 (js_mul x (fl (8 / 5))), Text ''437,500'',
               Fixed 1 x, Value (Num (equivalent_cars_offset r)),
               Fixed 0 (js_mul x (Fin 30))] []"
  using assms
  by (simp add: CarbonPage_def rendered_def toFixed_def scaled_fixed_def del: js_mul.simps)

lemma overview_cars_offset:
  assumes "\<not> isLoading q" and "error q = None" and "data q = Some metrics"
    and "annual_co2_capture_tons metrics = Num x" and "truthy x"
    and "health_score_percentage metrics = Num y"
  shows "metric_values (Index [] q health trend) ! 6
           = Value (Num (Math_round (js_mul x (fl (11 / 50)))))"
  using assms
  by (simp add: Index_def rendered_def toFixed_def scaled_fixed_def del: js_mul.simps)

text \<open>
  The snapshot of the specification with an annual capture rate of 46 tons and 4.6 tons
  for a car has a cars offset of 10.
\<close>

lemma spec_snapshot_46_tons:
  "(let P = \<lparr> derive_scale = (\<lambda>n. 1), base_population = 4600, tier_override = Map.empty,
               healthy_ratio = 1, moderate_ratio = 0, stressed_ratio = 0, unhealthy_ratio = 0,
               noise = (\<lambda>n t k. 0), noise_bound = 0, per_tree_capture = 1 / 100,
               co2_per_car = 23 / 5, baseline_share = 1 \<rparr>;
        carbon = synthesizeCarbon P
                   (synthesizeHealth P \<lparr> LocationIdentity.name = lit ''Seattle'',
                                          scale_factor = 1 \<rparr> 0)
    in CarbonSnapshot.annual_capture_rate carbon = 46
     \<and> CarbonSnapshot.equivalent_cars_offset carbon = 10)"
proof -
  have "\<lfloor>21 / 2 :: rat\<rfloor> = 10" by (rule floor_unique) simp_all
  then show ?thesis
    by (simp add: Let_def synthesizeCarbon_def synthesizeHealth_def tree_count_of_def
        bounded_noise_def)
qed
subsection \<open>The location a fetcher asks for\<close>

lemma encode_Seattle: "encodeURIComponent (lit ''Seattle'') = Some (lit ''Seattle'')"
  by (simp add: lit_def is_unreserved_def)

lemma targetLocation_default:
  "targetLocation None = lit ''Seattle''"
  "targetLocation (Some (lit ''all'')) = lit ''Seattle''"
  "targetLocation (Some []) = lit ''Seattle''"
  "targetLocation (Some (lit ''Seattle'')) = lit ''Seattle''"
  by (simp_all add: targetLocation_def)

lemma health_path_Seattle:
  "lit ''/api/health?location='' @ lit ''Seattle'' = lit ''/api/health?location=Seattle''"
  by (simp add: lit_def)

lemma health_url_default:
  "health_url base None = Some (base @ lit ''/api/health?location=Seattle'')"
  "health_url base (Some (lit ''all'')) = Some (base @ lit ''/api/health?location=Seattle'')"
  "health_url base (Some []) = Some (base @ lit ''/api/health?location=Seattle'')"
  "health_url base (Some (lit ''Seattle'')) = Some (base @ lit ''/api/health?location=Seattle'')"
  by (simp_all add: health_url_def targetLocation_default encode_Seattle health_path_Seattle)

lemma request_Some: "request fetch (Some url) message = ([url], received (fetch url) message)"
  by (simp add: request_def)

text \<open>
  C9. With no selected location, with the empty selection or with the selection \<^verbatim>\<open>'all'\<close>,
  the overview and the health-distribution fetchers issue one request, to
  \<^verbatim>\<open>/api/health?location=Seattle\<close>, and settle with the transform of what that URL
  answers: nothing aggregates over the locations. The NDVI, carbon and trend fetchers
  take no location and issue their one request for Seattle.
\<close>

theorem seattle_is_the_default_location:
  fixes base :: jsstring and fetch :: "jsstring \<Rightarrow> fetch_result"
  defines "seattle \<equiv> base @ lit ''/api/health?location=Seattle''"
  shows "fetchOverviewMetrics base fetch now None
       = transformed (overview_of now)
           ([seattle], received (fetch seattle) ''Failed to fetch overview metrics'')
   \<and> fetchOverviewMetrics base fetch now (Some (lit ''all''))
       = transformed (overview_of now)
           ([seattle], received (fetch seattle) ''Failed to fetch overview metrics'')
   \<and> fetchOverviewMetrics base fetch now (Some [])
       = transformed (overview_of now)
           ([seattle], received (fetch seattle) ''Failed to fetch overview metrics'')
   \<and> fetchHealthDistribution base fetch None
       = transformed health_distribution_of
           ([seattle], received (fetch seattle) ''Failed to fetch health distribution'')
   \<and> fetchHealthDistribution base fetch (Some (lit ''all''))
       = transformed health_distribution_of
           ([seattle], received (fetch seattle) ''Failed to fetch health distribution'')
   \<and> fetchHealthDistribution base fetch (Some [])
       = transformed health_distribution_of
           ([seattle], received (fetch seattle) ''Failed to fetch health distribution'')
   \<and> fst (fetchOverviewMetrics base fetch now None) = [seattle]
   \<and> fst (fetchOverviewMetrics base fetch now (Some (lit ''all''))) = [seattle]
   \<and> fst (fetchHealthDistribution base fetch None) = [seattle]
   \<and> fst (fetchHealthDistribution base fetch (Some (lit ''all''))) = [seattle]
   \<and> fetchNDVIData base fetch
       = transformed ndvi_data_of ([seattle], received (fetch seattle) ''Failed to fetch NDVI data'')
   \<and> fetchCarbonData base fetch now
       = transformed (carbon_data_of now)
           ([base @ lit ''/api/carbon?location=Seattle''],
            received (fetch (base @ lit ''/api/carbon?location=Seattle''))
              ''Failed to fetch carbon data'')
   \<and> fetchTrendData base fetch toLocaleDateString
       = transformed (trend_data_of toLocaleDateString)
           ([base @ lit ''/api/trends?location=Seattle&days=30''],
            received (fetch (base @ lit ''/api/trends?location=Seattle&days=30''))
              ''Failed to fetch trend data'')
   \<and> fst (fetchNDVIData base fetch) = [seattle]
   \<and> fst (fetchCarbonData base fetch now) = [base @ lit ''/api/carbon?location=Seattle'']
   \<and> fst (fetchTrendData base fetch toLocaleDateString)
       = [base @ lit ''/api/trends?location=Seattle&days=30'']"
  unfolding seattle_def
  by (simp add: health_url_default fetchOverviewMetrics_def fetchHealthDistribution_def
      fetchNDVIData_def fetchCarbonData_def fetchTrendData_def ndvi_url_def carbon_url_def
      trend_url_def request_Some transformed_def)

text \<open>
  A selected location is requested by its own name: the choice of Seattle is the default
  alone.
\<close>

lemma selected_location_is_requested:
  "fst (fetchOverviewMetrics base fetch now (Some (lit ''Pune'')))
     = [base @ lit ''/api/health?location=Pune'']"
  "fst (fetchHealthDistribution base fetch (Some (lit ''Pune'')))
     = [base @ lit ''/api/health?location=Pune'']"
  by (simp_all add: fetchOverviewMetrics_def fetchHealthDistribution_def health_url_def
      targetLocation_def request_def transformed_def lit_def is_unreserved_def)

text \<open>
  The client module for \<^verbatim>\<open>http://localhost:8000\<close> differs here: with no selection, or
  with \<^verbatim>\<open>'all'\<close>, it requests the endpoint without a location.
\<close>

lemma localhost_client_asks_for_all_locations:
  "localhost_overview_url None = Some (lit ''http://localhost:8000'' @ lit ''/api/metrics/overview'')"
  "localhost_overview_url (Some (lit ''all''))
     = Some (lit ''http://localhost:8000'' @ lit ''/api/metrics/overview'')"
  "localhost_distribution_url None
     = Some (lit ''http://localhost:8000'' @ lit ''/api/health/distribution'')"
  "localhost_distribution_url (Some (lit ''all''))
     = Some (lit ''http://localhost:8000'' @ lit ''/api/health/distribution'')"
  by (simp_all add: localhost_overview_url_def localhost_distribution_url_def localhost_url_def)

subsection \<open>Failed fetches\<close>









lemma null_response_rejects:
  "rejected (fetchHealthDistribution base (\<lambda>url. HttpResponse True (Some Null)) None)"
  "rejected (fetchOverviewMetrics base (\<lambda>url. HttpResponse True (Some Null)) now None)"
  "rejected (fetchCarbonData base (\<lambda>url. HttpResponse True (Some Null)) now)"
  by (simp_all add: rejected_def fetchHealthDistribution_def fetchOverviewMetrics_def
      fetchCarbonData_def transformed_def request_def received_def health_url_default
      carbon_url_def health_distribution_of_def dist_of_def overview_of_def carbon_data_of_def)





subsection \<open>Adding a location\<close>

lemma unreserved_not_surrogate:
  "is_unreserved c \<Longrightarrow> \<not> is_lead_surrogate c \<and> \<not> is_trail_surrogate c"
  by (auto simp add: is_unreserved_def is_lead_surrogate_def is_trail_surrogate_def
      word_le_nat_alt)

lemma lead_not_trail: "is_lead_surrogate c \<Longrightarrow> \<not> is_trail_surrogate c"
  by (auto simp add: is_lead_surrogate_def is_trail_surrogate_def word_le_nat_alt)

lemma encode_well_formed: "encodeURIComponent s \<noteq> None \<longleftrightarrow> well_formed s"
proof (induction s rule: encodeURIComponent.induct)
  case 1
  then show ?case by simp
next
  case (2 c)
  then show ?case using unreserved_not_surrogate [of c] by auto
next
  case (3 c d ds)
  then show ?case
    using unreserved_not_surrogate [of c] lead_not_trail [of c] by auto
qed

lemma newLocation_first:
  "newLocation (Obj [(lit ''locations'', Arr (Obj [(lit ''location'', v)] # others))])
     = Some (Some v)"
  by (simp add: newLocation_def length_of_def first_of_def greater_than_zero_def to_number_def)

lemma requests_of_long_term:
  assumes "2 \<le> length (trim (searchTerm st))"
  shows "requests (handleAddNewLocation fetch st)
    = (case encodeURIComponent (trim (searchTerm st)) of
         None \<Rightarrow> []
       | Some q \<Rightarrow> [lit ''http://localhost:8000/api/locations/search?q='' @ q])"
  using assms
  by (simp add: handleAddNewLocation_def Let_def
      split: fetch_result.splits option.splits)

text \<open>
  C7 (as amended). \<^verbatim>\<open>handleAddNewLocation\<close> returns at once, with no request and the state
  untouched, when the trimmed search term has fewer than two code units, and so does the
  Enter key. A trimmed term of at least two code units is sent in one search request,
  percent-encoded, exactly when it is well formed: \<^verbatim>\<open>encodeURIComponent\<close> throws on a
  surrogate without its partner, inside the \<^verbatim>\<open>try\<close> block, and nothing is sent then. The
  Enter key adds the term in the same way when no listed location matches it, selects the
  first match without a request otherwise, and every other key does nothing. When the
  response to the search is ok and lists a location first, that location is selected and
  the list of locations is fetched again. The synthesizer (modelled from the spec) finds
  or creates an identity for every name.
\<close>

theorem short_terms_are_rejected:
  fixes fetch :: "jsstring \<Rightarrow> fetch_result" and short long :: selector
  defines "search \<equiv> \<lambda>q. lit ''http://localhost:8000/api/locations/search?q='' @ q"
  shows "(length (trim (searchTerm short)) < 2 \<longrightarrow>
      handleAddNewLocation fetch short = \<lparr> requests = [], refetches = 0, after = short \<rparr>
      \<and> handleKeyPress key filteredLocations fetch short
          = \<lparr> requests = [], refetches = 0, after = short \<rparr>)
   \<and> (2 \<le> length (trim (searchTerm long)) \<longrightarrow>
      requests (handleAddNewLocation fetch long)
        = (case encodeURIComponent (trim (searchTerm long)) of
             None \<Rightarrow> [] | Some q \<Rightarrow> [search q])
      \<and> (encodeURIComponent (trim (searchTerm long)) = None)
          = (\<not> well_formed (trim (searchTerm long)))
      \<and> handleKeyPress (lit ''Enter'') [] fetch long = handleAddNewLocation fetch long
      \<and> handleKeyPress (lit ''Enter'') (first # others) fetch long
          = \<lparr> requests = [], refetches = 0,
              after = handleLocationSelect (Str (LocationInfo.name first)) long \<rparr>
      \<and> (key \<noteq> lit ''Enter'' \<longrightarrow>
          handleKeyPress key filteredLocations fetch long
            = \<lparr> requests = [], refetches = 0, after = long \<rparr>))
   \<and> (2 \<le> length (trim (searchTerm long)) \<and> well_formed (trim (searchTerm long)) \<longrightarrow>
      (\<exists>q. encodeURIComponent (trim (searchTerm long)) = Some q
         \<and> requests (handleAddNewLocation fetch long) = [search q]
         \<and> requests (handleKeyPress (lit ''Enter'') [] fetch long) = [search q]
         \<and> (fetch (search q)
               = HttpResponse True
                   (Some (Obj [(lit ''locations'', Arr (Obj [(lit ''location'', found)] # further))]))
             \<longrightarrow> handleAddNewLocation fetch long
                 = \<lparr> requests = [search q], refetches = 1,
                     after = handleLocationSelect found long \<rparr>)))
   \<and> LocationIdentity.name (fst (getOrCreateLocation P (trim (searchTerm long)) store))
       = trim (searchTerm long)
   \<and> scale_factors (snd (getOrCreateLocation P (trim (searchTerm long)) store))
         (trim (searchTerm long))
       = Some (scale_factor (fst (getOrCreateLocation P (trim (searchTerm long)) store)))"
proof -
  have short: "handleAddNewLocation fetch short = \<lparr> requests = [], refetches = 0, after = short \<rparr>
      \<and> handleKeyPress key filteredLocations fetch short
          = \<lparr> requests = [], refetches = 0, after = short \<rparr>"
    if "length (trim (searchTerm short)) < 2"
    using that by (simp add: handleAddNewLocation_def handleKeyPress_def)
  have long: "requests (handleAddNewLocation fetch long)
        = (case encodeURIComponent (trim (searchTerm long)) of
             None \<Rightarrow> [] | Some q \<Rightarrow> [search q])
      \<and> (encodeURIComponent (trim (searchTerm long)) = None)
          = (\<not> well_formed (trim (searchTerm long)))
      \<and> handleKeyPress (lit ''Enter'') [] fetch long = handleAddNewLocation fetch long
      \<and> handleKeyPress (lit ''Enter'') (first # others) fetch long
          = \<lparr> requests = [], refetches = 0,
              after = handleLocationSelect (Str (LocationInfo.name first)) long \<rparr>
      \<and> (key \<noteq> lit ''Enter'' \<longrightarrow>
          handleKeyPress key filteredLocations fetch long
            = \<lparr> requests = [], refetches = 0, after = long \<rparr>)"
    if l: "2 \<le> length (trim (searchTerm long))"
  proof -
    have "requests (handleAddNewLocation fetch long)
        = (case encodeURIComponent (trim (searchTerm long)) of
             None \<Rightarrow> [] | Some q \<Rightarrow> [search q])"
      unfolding search_def using l by (rule requests_of_long_term)
    moreover have "(encodeURIComponent (trim (searchTerm long)) = None)
          = (\<not> well_formed (trim (searchTerm long)))"
      using encode_well_formed [of "trim (searchTerm long)"] by blast
    moreover have "handleKeyPress (lit ''Enter'') [] fetch long = handleAddNewLocation fetch long"
      "handleKeyPress (lit ''Enter'') (first # others) fetch long
          = \<lparr> requests = [], refetches = 0,
              after = handleLocationSelect (Str (LocationInfo.name first)) long \<rparr>"
      "key \<noteq> lit ''Enter'' \<longrightarrow>
          handleKeyPress key filteredLocations fetch long
            = \<lparr> requests = [], refetches = 0, after = long \<rparr>"
      using l by (simp_all add: handleKeyPress_def)
    ultimately show ?thesis by blast
  qed
  have sent: "\<exists>q. encodeURIComponent (trim (searchTerm long)) = Some q
         \<and> requests (handleAddNewLocation fetch long) = [search q]
         \<and> requests (handleKeyPress (lit ''Enter'') [] fetch long) = [search q]
         \<and> (fetch (search q)
               = HttpResponse True
                   (Some (Obj [(lit ''locations'', Arr (Obj [(lit ''location'', found)] # further))]))
             \<longrightarrow> handleAddNewLocation fetch long
                 = \<lparr> requests = [search q], refetches = 1,
                     after = handleLocationSelect found long \<rparr>)"
    if a: "2 \<le> length (trim (searchTerm long)) \<and> well_formed (trim (searchTerm long))"
  proof -
    from a obtain q where q: "encodeURIComponent (trim (searchTerm long)) = Some q"
      using encode_well_formed [of "trim (searchTerm long)"] by auto
    from a have l: "2 \<le> length (trim (searchTerm long))" by blast
    have r: "requests (handleAddNewLocation fetch long) = [search q]"
      using requests_of_long_term [OF l, of fetch] q by (simp add: search_def)
    have k: "requests (handleKeyPress (lit ''Enter'') [] fetch long) = [search q]"
      using l r by (simp add: handleKeyPress_def)
    have "handleAddNewLocation fetch long
        = \<lparr> requests = [search q], refetches = 1, after = handleLocationSelect found long \<rparr>"
      if "fetch (search q)
            = HttpResponse True
                (Some (Obj [(lit ''locations'', Arr (Obj [(lit ''location'', found)] # further))]))"
      using l q that [unfolded search_def]
      by (simp add: handleAddNewLocation_def Let_def newLocation_first search_def)
    with q r k show ?thesis by blast
  qed
  from short long sent getOrCreateLocation_name getOrCreateLocation_records
  show ?thesis by blast
qed

theorem short_terms_are_rejected_witness:
  "(let short = \<lparr> selectedLocation = Str (lit ''all''), searchTerm = lit '' a '', isOpen = True,
                  isAddingNew = False \<rparr>;
        long = \<lparr> selectedLocation = Str (lit ''all''), searchTerm = lit '' Nashik '',
                 isOpen = True, isAddingNew = False \<rparr>;
        fetch = (\<lambda>url. HttpResponse True
                   (Some (Obj [(lit ''locations'',
                                Arr (Obj [(lit ''location'', Str (lit ''Nashik''))] # []))])));
        search = lit ''http://localhost:8000/api/locations/search?q='' @ lit ''Nashik''
    in length (trim (searchTerm short)) < 2
     \<and> 2 \<le> length (trim (searchTerm long)) \<and> well_formed (trim (searchTerm long))
     \<and> lit ''a'' \<noteq> lit ''Enter''
     \<and> fetch search
         = HttpResponse True
             (Some (Obj [(lit ''locations'',
                          Arr (Obj [(lit ''location'', Str (lit ''Nashik''))] # []))]))
     \<and> handleAddNewLocation fetch short = \<lparr> requests = [], refetches = 0, after = short \<rparr>
     \<and> handleKeyPress (lit ''a'') [] fetch short
         = \<lparr> requests = [], refetches = 0, after = short \<rparr>
     \<and> handleKeyPress (lit ''a'') [] fetch long = \<lparr> requests = [], refetches = 0, after = long \<rparr>
     \<and> requests (handleKeyPress (lit ''Enter'') [] fetch long) = [search]
     \<and> handleAddNewLocation fetch long
         = \<lparr> requests = [search], refetches = 1,
             after = handleLocationSelect (Str (lit ''Nashik'')) long \<rparr>)"
proof -
  let ?short = "\<lparr> selectedLocation = Str (lit ''all''), searchTerm = lit '' a '', isOpen = True,
                  isAddingNew = False \<rparr>"
  let ?long = "\<lparr> selectedLocation = Str (lit ''all''), searchTerm = lit '' Nashik '',
                 isOpen = True, isAddingNew = False \<rparr>"
  let ?body = "Obj [(lit ''locations'',
                     Arr (Obj [(lit ''location'', Str (lit ''Nashik''))] # []))]"
  let ?fetch = "\<lambda>url :: jsstring. HttpResponse True (Some ?body)"
  let ?search = "lit ''http://localhost:8000/api/locations/search?q='' @ lit ''Nashik''"
  have s: "trim (searchTerm ?short) = lit ''a''"
    by (simp add: trim_def lit_def is_white_space_def)
  have l: "trim (searchTerm ?long) = lit ''Nashik''"
    by (simp add: trim_def lit_def is_white_space_def)
  have e: "encodeURIComponent (lit ''Nashik'') = Some (lit ''Nashik'')"
    by (simp add: lit_def is_unreserved_def)
  have h: "length (trim (searchTerm ?short)) < 2" "2 \<le> length (trim (searchTerm ?long))"
    "well_formed (trim (searchTerm ?long))" "lit ''a'' \<noteq> lit ''Enter''"
    unfolding s l
    by (simp_all add: lit_def is_lead_surrogate_def is_trail_surrogate_def)
  have f: "?fetch ?search = HttpResponse True (Some ?body)" by simp
  note t = short_terms_are_rejected [where short = ?short and long = ?long and fetch = ?fetch
      and key = "lit ''a''" and filteredLocations = "[]" and found = "Str (lit ''Nashik'')"
      and further = "[]"]
  from t h(1) have a:
    "handleAddNewLocation ?fetch ?short = \<lparr> requests = [], refetches = 0, after = ?short \<rparr>"
    "handleKeyPress (lit ''a'') [] ?fetch ?short
       = \<lparr> requests = [], refetches = 0, after = ?short \<rparr>"
    by blast+
  from t h(2,4) have b:
    "handleKeyPress (lit ''a'') [] ?fetch ?long = \<lparr> requests = [], refetches = 0, after = ?long \<rparr>"
    by blast
  from t h(2,3) obtain q where q: "encodeURIComponent (trim (searchTerm ?long)) = Some q"
    and k: "requests (handleKeyPress (lit ''Enter'') [] ?fetch ?long)
        = [lit ''http://localhost:8000/api/locations/search?q='' @ q]"
    and r: "?fetch (lit ''http://localhost:8000/api/locations/search?q='' @ q)
               = HttpResponse True (Some ?body)
             \<longrightarrow> handleAddNewLocation ?fetch ?long
                 = \<lparr> requests = [lit ''http://localhost:8000/api/locations/search?q='' @ q],
                     refetches = 1,
                     after = handleLocationSelect (Str (lit ''Nashik'')) ?long \<rparr>"
    by blast
  from q have q': "q = lit ''Nashik''" unfolding l e by simp
  from r have c: "handleAddNewLocation ?fetch ?long
      = \<lparr> requests = [?search], refetches = 1,
          after = handleLocationSelect (Str (lit ''Nashik'')) ?long \<rparr>"
    unfolding q' by simp
  from k have d: "requests (handleKeyPress (lit ''Enter'') [] ?fetch ?long) = [?search]"
    unfolding q' .
  show ?thesis unfolding Let_def by (intro conjI h f a b c d)
qed

text \<open>
  The claim as stated, every trimmed term of at least two code units accepted, fails for
  a term that is not well formed: for the two code units of a surrogate without its
  partner and the letter a, no request is sent and the state stays as it is, though the
  API would answer the search with a location.
\<close>

theorem lone_surrogate_is_not_sent:
  "length (trim [0xD800, 0x61 :: 16 word]) = 2
   \<and> handleAddNewLocation
       (\<lambda>url. HttpResponse True
          (Some (Obj [(lit ''locations'', Arr [Obj [(lit ''location'', Str (lit ''Pune''))]])])))
       \<lparr> selectedLocation = Str (lit ''all''), searchTerm = [0xD800, 0x61], isOpen = True,
         isAddingNew = False \<rparr>
     = \<lparr> requests = [], refetches = 0,
         after = \<lparr> selectedLocation = Str (lit ''all''), searchTerm = [0xD800, 0x61],
                   isOpen = True, isAddingNew = False \<rparr> \<rparr>
   \<and> handleKeyPress (lit ''Enter'') []
       (\<lambda>url. HttpResponse True
          (Some (Obj [(lit ''locations'', Arr [Obj [(lit ''location'', Str (lit ''Pune''))]])])))
       \<lparr> selectedLocation = Str (lit ''all''), searchTerm = [0xD800, 0x61], isOpen = True,
         isAddingNew = False \<rparr>
     = \<lparr> requests = [], refetches = 0,
         after = \<lparr> selectedLocation = Str (lit ''all''), searchTerm = [0xD800, 0x61],
                   isOpen = True, isAddingNew = False \<rparr> \<rparr>"
  by (simp add: handleAddNewLocation_def handleKeyPress_def trim_def is_white_space_def
      is_unreserved_def is_lead_surrogate_def is_trail_surrogate_def)

end
